theory Spec2Isabelle
  imports Main "HOL-Library.Sublist"
begin

section \<open>Data model\<close>

text \<open>
  The helper is the class \<open>MailSlurp\<close> of the TypeScript source. The file
  \<open>index.js\<close> is an earlier version of the same class: it logs unconditionally,
  asserts with another library and has no assertion on attachments; the query
  translation, the hooks, the mailbox and wait operations are the same.

  JavaScript strings are modelled as \<open>string\<close>; the field names and texts of the
  documentation are ASCII. JavaScript numbers that hold whole numbers (seconds,
  milliseconds, counts) are modelled as \<open>int\<close>. A JavaScript number is a double:
  every whole number up to \<open>2 ^ 53\<close> in absolute value is one, and the one product
  the helper computes, \<open>1000*sec\<close>, is rounded to the nearest double as JavaScript
  rounds it. An optional parameter is an \<open>option\<close>: \<open>None\<close> is \<open>undefined\<close>.
\<close>

record inbox =
  inbox_id :: string
  emailAddress :: string

record email =
  email_id :: string
  email_from :: string
  subject :: string
  body :: string
  attachments :: "string list"

record emailPreview =
  preview_id :: string

record attachmentMetaData =
  name :: string

record sendEmailOptions =
  send_to :: "string list"
  send_subject :: string
  send_body :: string
  send_attachments :: "string list"

text \<open>The object literal that \<open>matchEmailBy\<close> builds for every entry of a query.\<close>

datatype should = EQUAL | CONTAIN

record matchOption =
  field :: string
  "value" :: string
  should :: should

record matchOptions =
  matches :: "matchOption list"

text \<open>
  A query object is given by its own properties as \<open>Object.entries\<close> enumerates
  them: for property names that are not array indices, as all field names are
  (\<open>from\<close>, \<open>to\<close>, \<open>subject\<close>, \<open>cc\<close>, \<open>bcc\<close>), that is the order of insertion.
\<close>

type_synonym query = "(string \<times> string) list"

section \<open>Query translation\<close>

text \<open>\<open>String.prototype.toUpperCase\<close> on ASCII text.\<close>

definition toUpperCase_char :: "char \<Rightarrow> char" where
  "toUpperCase_char c =
     (let n = (of_char c :: nat)
      in if of_char CHR ''a'' \<le> n \<and> n \<le> of_char CHR ''z'' then char_of (n - 32) else c)"

definition toUpperCase :: "string \<Rightarrow> string" where
  "toUpperCase s = map toUpperCase_char s"

text \<open>\<open>value[0] === '='\<close>: the index \<open>0\<close> of an empty string is \<open>undefined\<close>.\<close>

definition startsWithEquals :: "string \<Rightarrow> bool" where
  "startsWithEquals v = (case v of [] \<Rightarrow> False | c # _ \<Rightarrow> c = CHR ''='')"

definition matchEmailBy :: "query \<Rightarrow> matchOptions" where
  "matchEmailBy options =
     \<lparr>matches = map (\<lambda>(key, v).
        if startsWithEquals v
        then \<lparr>field = toUpperCase key, value = v, should = EQUAL\<rparr>
        else \<lparr>field = toUpperCase key, value = v, should = CONTAIN\<rparr>) options\<rparr>"

section \<open>Errors and the mailbox provider\<close>

text \<open>
  Every way an operation of the helper can fail: the helper's own
  \<open>throw new Error(message)\<close>, a property read of \<open>null\<close> or \<open>undefined\<close>,
  \<open>new RegExp\<close> of an invalid pattern, the rejection of a promise of the client
  (passed on unchanged), and a failed \<open>expect\<close>, which reports the received value.
\<close>

datatype jsval = JString string | JNumber int

datatype error =
    Error string
  | TypeError
  | SyntaxError
  | Rejected string
  | JestAssertionError jsval

text \<open>
  The calls of the client \<open>this.mailslurp\<close>, with their arguments. The helper's
  operations append every call they make to a log, in the order they make them.
\<close>

datatype call =
    CreateInbox
  | GetInbox string
  | DeleteInbox string
  | SendEmail string sendEmailOptions
  | WaitForLatestEmail string int
  | WaitForMatchingEmails matchOptions "int option" string int
  | WaitForNthEmail string int int
  | GetEmails string
  | GetEmail string
  | GetAttachmentMetaData string string

text \<open>
  The client is not part of the repository: it is a parameter. Each of its methods
  answers with a value or with a rejection (\<open>Inl\<close> of its reason), and the answer
  may depend on all the calls made before (the first argument), as the answers of a
  remote service do.
\<close>

record provider =
  mailslurp_createInbox :: "call list \<Rightarrow> string + inbox"
  mailslurp_getInbox :: "call list \<Rightarrow> string \<Rightarrow> string + inbox"
  mailslurp_deleteInbox :: "call list \<Rightarrow> string \<Rightarrow> string + unit"
  mailslurp_sendEmail :: "call list \<Rightarrow> string \<Rightarrow> sendEmailOptions \<Rightarrow> string + unit"
  mailslurp_waitForLatestEmail :: "call list \<Rightarrow> string \<Rightarrow> int \<Rightarrow> string + email"
  mailslurp_waitForMatchingEmails ::
    "call list \<Rightarrow> matchOptions \<Rightarrow> int option \<Rightarrow> string \<Rightarrow> int \<Rightarrow> string + emailPreview list"
  mailslurp_waitForNthEmail :: "call list \<Rightarrow> string \<Rightarrow> int \<Rightarrow> int \<Rightarrow> string + email"
  mailslurp_getEmails :: "call list \<Rightarrow> string \<Rightarrow> string + emailPreview list"
  mailslurp_getEmail :: "call list \<Rightarrow> string \<Rightarrow> string + email"
  mailslurp_getAttachmentMetaData ::
    "call list \<Rightarrow> string \<Rightarrow> string \<Rightarrow> string + attachmentMetaData"

text \<open>\<open>await\<close> of one promise of the client.\<close>

definition await :: "string + 'a \<Rightarrow> error + 'a" where
  "await r = (case r of Inl e \<Rightarrow> Inl (Rejected e) | Inr v \<Rightarrow> Inr v)"

text \<open>
  \<open>xs.map(x => this.mailslurp.f(x))\<close>: the callback runs for every element before
  anything is awaited, so every call is made, whatever the others answer.
\<close>

fun mapRequests ::
  "('a \<Rightarrow> call) \<Rightarrow> (call list \<Rightarrow> 'a \<Rightarrow> string + 'b) \<Rightarrow> 'a list \<Rightarrow> call list
     \<Rightarrow> (string + 'b) list \<times> call list" where
  "mapRequests c f [] tr = ([], tr)"
| "mapRequests c f (x # xs) tr =
     (let (rs, tr') = mapRequests c f xs (tr @ [c x]) in (f tr x # rs, tr'))"

text \<open>
  \<open>await Promise.all(promises)\<close>: the values in order when every promise is
  fulfilled, a rejection as soon as one is rejected. When several are rejected the
  one reported is the first in time; the model reports the first of the list.
\<close>

fun Promise_all :: "(string + 'b) list \<Rightarrow> error + 'b list" where
  "Promise_all [] = Inr []"
| "Promise_all (Inl e # rs) = Inl (Rejected e)"
| "Promise_all (Inr v # rs) =
     (case Promise_all rs of Inl e \<Rightarrow> Inl e | Inr vs \<Rightarrow> Inr (v # vs))"

section \<open>The helper\<close>

text \<open>
  The object given to the constructor, where \<open>None\<close> is a property that is absent,
  and the configuration that \<open>Object.assign(defaults, config)\<close> makes of it.
\<close>

record configuration =
  cfg_apiKey :: "string option"
  cfg_timeout :: "int option"
  cfg_debug :: "bool option"

record config =
  apiKey :: string
  timeout :: int
  debug :: bool

text \<open>
  The fields of a \<open>MailSlurp\<close> instance. \<open>mailboxes\<close> is \<open>undefined\<close> (\<open>None\<close>)
  until \<open>_before\<close> has run. Output to the console is not part of the model.
\<close>

record helper =
  config :: config
  mailboxes :: "inbox list option"
  currentMailbox :: "inbox option"
  currentEmail :: "email option"

text \<open>
  The constructor, and the hooks \<open>_before\<close> and \<open>_after\<close> (an Isabelle name cannot
  start with an underscore).
\<close>

definition MailSlurp_constructor :: "configuration \<Rightarrow> error + helper" where
  "MailSlurp_constructor c =
     (let notConfigured =
            Error ''MailSlurp is not configured! Please provide API key to access your account''
      in case cfg_apiKey c of
           None \<Rightarrow> Inl notConfigured
         | Some k \<Rightarrow>
             if k = [] then Inl notConfigured
             else Inr \<lparr>config = \<lparr>apiKey = k,
                                  timeout = (case cfg_timeout c of None \<Rightarrow> 10000 | Some t \<Rightarrow> t),
                                  debug = (case cfg_debug c of None \<Rightarrow> False | Some d \<Rightarrow> d)\<rparr>,
                       mailboxes = None, currentMailbox = None, currentEmail = None\<rparr>)"

definition MailSlurp_before :: "helper \<Rightarrow> helper" where
  "MailSlurp_before h = h\<lparr>mailboxes := Some [], currentMailbox := None, currentEmail := None\<rparr>"

definition MailSlurp_after ::
  "provider \<Rightarrow> helper \<Rightarrow> call list \<Rightarrow> (error + unit) \<times> helper \<times> call list" where
  "MailSlurp_after P h tr =
     (case mailboxes h of
        None \<Rightarrow> (Inr (), h, tr)
      | Some ms \<Rightarrow>
          if ms = [] then (Inr (), h, tr)
          else
            (let (rs, tr') = mapRequests (\<lambda>m. DeleteInbox (inbox_id m))
                               (\<lambda>t m. mailslurp_deleteInbox P t (inbox_id m)) ms tr
             in case Promise_all rs of
                  Inl e \<Rightarrow> (Inl e, h, tr')
                | Inr _ \<Rightarrow>
                    (Inr (),
                     h\<lparr>mailboxes := Some [], currentMailbox := None, currentEmail := None\<rparr>,
                     tr')))"

definition haveNewMailbox ::
  "provider \<Rightarrow> helper \<Rightarrow> call list \<Rightarrow> (error + inbox) \<times> helper \<times> call list" where
  "haveNewMailbox P h tr =
     (let tr' = tr @ [CreateInbox]
      in case await (mailslurp_createInbox P tr) of
           Inl e \<Rightarrow> (Inl e, h, tr')
         | Inr inbox \<Rightarrow>
             (case mailboxes h of
                None \<Rightarrow> (Inl TypeError, h, tr')
              | Some ms \<Rightarrow>
                  (Inr inbox,
                   h\<lparr>mailboxes := Some (ms @ [inbox]), currentMailbox := Some inbox\<rparr>, tr')))"

definition haveExistingMailbox ::
  "provider \<Rightarrow> string option \<Rightarrow> helper \<Rightarrow> call list \<Rightarrow> (error + inbox) \<times> helper \<times> call list"
  where
  "haveExistingMailbox P mailboxId h tr =
     (let missing = Error ''Id of existing mailbox must be provided in parameters.''
      in case mailboxId of
           None \<Rightarrow> (Inl missing, h, tr)
         | Some i \<Rightarrow>
             if i = [] then (Inl missing, h, tr)
             else
               (let tr' = tr @ [GetInbox i]
                in case await (mailslurp_getInbox P tr i) of
                     Inl e \<Rightarrow> (Inl e, h, tr')
                   | Inr inbox \<Rightarrow>
                       (case mailboxes h of
                          None \<Rightarrow> (Inl TypeError, h, tr')
                        | Some ms \<Rightarrow>
                            (Inr inbox,
                             h\<lparr>mailboxes := Some (ms @ [inbox]), currentMailbox := Some inbox\<rparr>,
                             tr'))))"

definition openMailbox :: "inbox \<Rightarrow> helper \<Rightarrow> helper" where
  "openMailbox mailbox h = h\<lparr>currentMailbox := Some mailbox\<rparr>"

definition openEmail :: "email \<Rightarrow> helper \<Rightarrow> helper" where
  "openEmail e h = h\<lparr>currentEmail := Some e\<rparr>"

definition sendEmail ::
  "provider \<Rightarrow> sendEmailOptions \<Rightarrow> helper \<Rightarrow> call list \<Rightarrow> (error + unit) \<times> helper \<times> call list"
  where
  "sendEmail P data h tr =
     (case currentMailbox h of
        None \<Rightarrow> (Inl TypeError, h, tr)
      | Some mb \<Rightarrow>
          (await (mailslurp_sendEmail P tr (inbox_id mb) data), h,
           tr @ [SendEmail (inbox_id mb) data]))"

section \<open>Waiting for emails\<close>

text \<open>
  The product of two whole numbers as JavaScript computes it: the double nearest to
  the exact product, the one with the even significand when two are equally near. A
  double has a significand of 53 bits: \<open>scaleOf m\<close> is the number of low bits of
  \<open>m\<close> that do not fit, and \<open>roundToDouble\<close> rounds them away. (A product beyond
  the largest double, about \<open>1.8e308\<close>, is \<open>Infinity\<close> in JavaScript, which is
  not a whole number: the model has no value for it.)
\<close>

function scaleOf :: "nat \<Rightarrow> nat" where
  "scaleOf m = (if m < 2 ^ 53 then 0 else Suc (scaleOf (m div 2)))"
  by pat_completeness auto
termination
  by (relation "measure (\<lambda>m. m)") auto

declare scaleOf.simps [simp del]

definition roundToDouble :: "int \<Rightarrow> int" where
  "roundToDouble n =
     (let m = nat \<bar>n\<bar>;
          e = scaleOf m;
          q = m div 2 ^ e;
          r = m mod 2 ^ e;
          q' = (if 2 * r > 2 ^ e \<or> (2 * r = 2 ^ e \<and> odd q) then q + 1 else q)
      in sgn n * int (q' * 2 ^ e))"

definition multiply :: "int \<Rightarrow> int \<Rightarrow> int" where
  "multiply a b = roundToDouble (a * b)"

text \<open>
  The two steps every wait operation takes with its optional argument:
  \<open>if (sec) sec = 1000*sec\<close>, then \<open>sec || this.config.timeout\<close>. A number is
  falsy when it is \<open>0\<close>, and so is \<open>undefined\<close>.
\<close>

definition toMillis :: "int option \<Rightarrow> int option" where
  "toMillis sec =
     (case sec of None \<Rightarrow> None | Some n \<Rightarrow> if n \<noteq> 0 then Some (multiply 1000 n) else Some n)"

definition orTimeout :: "int option \<Rightarrow> int \<Rightarrow> int" where
  "orTimeout sec d = (case sec of None \<Rightarrow> d | Some n \<Rightarrow> if n \<noteq> 0 then n else d)"

definition waitForLatestEmail ::
  "provider \<Rightarrow> int option \<Rightarrow> helper \<Rightarrow> call list \<Rightarrow> (error + email) \<times> helper \<times> call list"
  where
  "waitForLatestEmail P sec h tr =
     (let sec' = toMillis sec
      in case currentMailbox h of
           None \<Rightarrow> (Inl TypeError, h, tr)
         | Some mb \<Rightarrow>
             (let t = orTimeout sec' (timeout (config h));
                  tr' = tr @ [WaitForLatestEmail (inbox_id mb) t]
              in case await (mailslurp_waitForLatestEmail P tr (inbox_id mb) t) of
                   Inl e \<Rightarrow> (Inl e, h, tr')
                 | Inr email \<Rightarrow> (Inr email, h\<lparr>currentEmail := Some email\<rparr>, tr')))"

definition waitForEmailMatching ::
  "provider \<Rightarrow> query \<Rightarrow> int option \<Rightarrow> helper \<Rightarrow> call list
     \<Rightarrow> (error + email) \<times> helper \<times> call list" where
  "waitForEmailMatching P query sec h tr =
     (let sec' = toMillis sec;
          spec = matchEmailBy query
      in case currentMailbox h of
           None \<Rightarrow> (Inl TypeError, h, tr)
         | Some mb \<Rightarrow>
             (let t = orTimeout sec' (timeout (config h));
                  tr1 = tr @ [WaitForMatchingEmails spec (Some 1) (inbox_id mb) t]
              in case await (mailslurp_waitForMatchingEmails P tr spec (Some 1) (inbox_id mb) t) of
                   Inl e \<Rightarrow> (Inl e, h, tr1)
                 | Inr emailPreviews \<Rightarrow>
                     (case emailPreviews of
                        [] \<Rightarrow> (Inl TypeError, h, tr1)
                      | p # _ \<Rightarrow>
                          (let tr2 = tr1 @ [GetEmail (preview_id p)]
                           in case await (mailslurp_getEmail P tr1 (preview_id p)) of
                                Inl e \<Rightarrow> (Inl e, h, tr2)
                              | Inr email \<Rightarrow>
                                  (Inr email, h\<lparr>currentEmail := Some email\<rparr>, tr2)))))"

definition waitForNthEmail ::
  "provider \<Rightarrow> int \<Rightarrow> int option \<Rightarrow> helper \<Rightarrow> call list
     \<Rightarrow> (error + email) \<times> helper \<times> call list" where
  "waitForNthEmail P number sec h tr =
     (let sec' = toMillis sec
      in case currentMailbox h of
           None \<Rightarrow> (Inl TypeError, h, tr)
         | Some mb \<Rightarrow>
             (let t = orTimeout sec' (timeout (config h));
                  tr' = tr @ [WaitForNthEmail (inbox_id mb) number t]
              in case await (mailslurp_waitForNthEmail P tr (inbox_id mb) number t) of
                   Inl e \<Rightarrow> (Inl e, h, tr')
                 | Inr email \<Rightarrow> (Inr email, h\<lparr>currentEmail := Some email\<rparr>, tr')))"

text \<open>
  \<open>Promise.all(emailPreviews.map(e => this.mailslurp.getEmail(e.id)))\<close>, the last
  line of both grab operations.
\<close>

definition getEmailOfEach ::
  "provider \<Rightarrow> emailPreview list \<Rightarrow> call list \<Rightarrow> (error + email list) \<times> call list" where
  "getEmailOfEach P emailPreviews tr =
     (let (rs, tr') = mapRequests (\<lambda>e. GetEmail (preview_id e))
                        (\<lambda>t e. mailslurp_getEmail P t (preview_id e)) emailPreviews tr
      in (Promise_all rs, tr'))"

definition grabEmailsMatching ::
  "provider \<Rightarrow> query \<Rightarrow> int option \<Rightarrow> helper \<Rightarrow> call list
     \<Rightarrow> (error + email list) \<times> helper \<times> call list" where
  "grabEmailsMatching P query num h tr =
     (let spec = matchEmailBy query
      in case currentMailbox h of
           None \<Rightarrow> (Inl TypeError, h, tr)
         | Some mb \<Rightarrow>
             (let t = timeout (config h);
                  tr1 = tr @ [WaitForMatchingEmails spec num (inbox_id mb) t]
              in case await (mailslurp_waitForMatchingEmails P tr spec num (inbox_id mb) t) of
                   Inl e \<Rightarrow> (Inl e, h, tr1)
                 | Inr emailPreviews \<Rightarrow>
                     (let (r, tr2) = getEmailOfEach P emailPreviews tr1 in (r, h, tr2))))"

definition grabAllEmailsFromMailbox ::
  "provider \<Rightarrow> helper \<Rightarrow> call list \<Rightarrow> (error + email list) \<times> helper \<times> call list" where
  "grabAllEmailsFromMailbox P h tr =
     (case currentMailbox h of
        None \<Rightarrow> (Inl TypeError, h, tr)
      | Some mb \<Rightarrow>
          (let tr1 = tr @ [GetEmails (inbox_id mb)]
           in case await (mailslurp_getEmails P tr (inbox_id mb)) of
                Inl e \<Rightarrow> (Inl e, h, tr1)
              | Inr emailPreviews \<Rightarrow>
                  (let (r, tr2) = getEmailOfEach P emailPreviews tr1 in (r, h, tr2))))"

section \<open>Content assertions\<close>

text \<open>
  \<open>_hasCurrentEmail\<close> throws unless an email is open; every assertion then reads
  \<open>this.currentEmail\<close>, which the model hands over as the result.
\<close>

definition hasCurrentEmail :: "helper \<Rightarrow> error + email" where
  "hasCurrentEmail h =
     (case currentEmail h of
        None \<Rightarrow> Inl (Error ''No email opened. Open an email with waitForEmail* methods'')
      | Some e \<Rightarrow> Inr e)"

text \<open>The matchers of \<open>expect\<close> that the helper uses, on the values it uses them on.\<close>

definition expect_toContain :: "string \<Rightarrow> string \<Rightarrow> error + unit" where
  "expect_toContain received expected =
     (if sublist expected received then Inr () else Inl (JestAssertionError (JString received)))"

definition expect_not_toContain :: "string \<Rightarrow> string \<Rightarrow> error + unit" where
  "expect_not_toContain received expected =
     (if sublist expected received then Inl (JestAssertionError (JString received)) else Inr ())"

definition expect_toEqual :: "jsval \<Rightarrow> jsval \<Rightarrow> error + unit" where
  "expect_toEqual received expected =
     (if received = expected then Inr () else Inl (JestAssertionError received))"

definition expect_not_toEqual :: "jsval \<Rightarrow> jsval \<Rightarrow> error + unit" where
  "expect_not_toEqual received expected =
     (if received = expected then Inl (JestAssertionError received) else Inr ())"

definition expect_toBeFalsy :: "string \<Rightarrow> error + unit" where
  "expect_toBeFalsy received =
     (if received = [] then Inr () else Inl (JestAssertionError (JString received)))"

definition seeInEmailSubject :: "string \<Rightarrow> helper \<Rightarrow> error + unit" where
  "seeInEmailSubject text h =
     (case hasCurrentEmail h of
        Inl e \<Rightarrow> Inl e
      | Inr email \<Rightarrow> expect_toContain (subject email) text)"

definition dontSeeInEmailSubject :: "string \<Rightarrow> helper \<Rightarrow> error + unit" where
  "dontSeeInEmailSubject text h =
     (case hasCurrentEmail h of
        Inl e \<Rightarrow> Inl e
      | Inr email \<Rightarrow> expect_not_toContain (subject email) text)"

definition seeInEmailBody :: "string \<Rightarrow> helper \<Rightarrow> error + unit" where
  "seeInEmailBody text h =
     (case hasCurrentEmail h of
        Inl e \<Rightarrow> Inl e
      | Inr email \<Rightarrow> expect_toContain (body email) text)"

definition dontSeeInEmailBody :: "string \<Rightarrow> helper \<Rightarrow> error + unit" where
  "dontSeeInEmailBody text h =
     (case hasCurrentEmail h of
        Inl e \<Rightarrow> Inl e
      | Inr email \<Rightarrow> expect_not_toContain (body email) text)"

definition seeEmailIsFrom :: "string \<Rightarrow> helper \<Rightarrow> error + unit" where
  "seeEmailIsFrom text h =
     (case hasCurrentEmail h of
        Inl e \<Rightarrow> Inl e
      | Inr email \<Rightarrow> expect_toContain (email_from email) text)"

definition seeEmailSubjectEquals :: "string \<Rightarrow> helper \<Rightarrow> error + unit" where
  "seeEmailSubjectEquals text h =
     (case hasCurrentEmail h of
        Inl e \<Rightarrow> Inl e
      | Inr email \<Rightarrow> expect_toEqual (JString (subject email)) (JString text))"

definition dontSeeEmailSubjectEquals :: "string \<Rightarrow> helper \<Rightarrow> error + unit" where
  "dontSeeEmailSubjectEquals text h =
     (case hasCurrentEmail h of
        Inl e \<Rightarrow> Inl e
      | Inr email \<Rightarrow> expect_not_toEqual (JString (subject email)) (JString text))"

definition seeNumberOfEmailAttachments :: "int \<Rightarrow> helper \<Rightarrow> error + unit" where
  "seeNumberOfEmailAttachments number h =
     (case hasCurrentEmail h of
        Inl e \<Rightarrow> Inl e
      | Inr email \<Rightarrow>
          expect_toEqual (JNumber (int (length (attachments email)))) (JNumber number))"

text \<open>
  \<open>new RegExp(nameRegExp)\<close> and \<open>String.prototype.match\<close> belong to the language:
  the regular-expression engine is a parameter, giving for a pattern either nothing
  (the pattern is invalid, \<open>new RegExp\<close> throws) or the set of strings it matches.
\<close>

type_synonym regExp = "string \<Rightarrow> (string \<Rightarrow> bool) option"

text \<open>\<open>Array.prototype.join\<close>.\<close>

fun join :: "string \<Rightarrow> string list \<Rightarrow> string" where
  "join sep [] = []"
| "join sep [x] = x"
| "join sep (x # y # ys) = x @ sep @ join sep (y # ys)"

text \<open>
  The \<open>for\<close> loop of \<open>seeEmailAttachment\<close> over the attachment ids still to visit,
  with the names found so far: \<open>Found\<close> is its \<open>return\<close>, \<open>NotFound\<close> its normal
  end with all the names found.
\<close>

datatype search = Found | NotFound "string list"

fun attachmentLoop ::
  "provider \<Rightarrow> regExp \<Rightarrow> string \<Rightarrow> string \<Rightarrow> string list \<Rightarrow> string list \<Rightarrow> call list
     \<Rightarrow> (error + search) \<times> call list" where
  "attachmentLoop P re nameRegExp emailId [] foundAttachmentNames tr =
     (Inr (NotFound foundAttachmentNames), tr)"
| "attachmentLoop P re nameRegExp emailId (attachmentId # rest) foundAttachmentNames tr =
     (let tr' = tr @ [GetAttachmentMetaData attachmentId emailId]
      in case await (mailslurp_getAttachmentMetaData P tr attachmentId emailId) of
           Inl e \<Rightarrow> (Inl e, tr')
         | Inr attachmentMetaData \<Rightarrow>
             (case re nameRegExp of
                None \<Rightarrow> (Inl SyntaxError, tr')
              | Some matching \<Rightarrow>
                  if matching (name attachmentMetaData) then (Inr Found, tr')
                  else attachmentLoop P re nameRegExp emailId rest
                         (foundAttachmentNames @ [name attachmentMetaData]) tr'))"

definition notFoundMessage :: "string \<Rightarrow> email \<Rightarrow> string list \<Rightarrow> string" where
  \<open>notFoundMessage nameRegExp email foundAttachmentNames =
     ''Attachment with name "'' @ nameRegExp @ ''" not found in e-mail with subject "''
       @ subject email @ ''".''
       @ (if length foundAttachmentNames > 0
          then '' Found attachments: "'' @ join '','' foundAttachmentNames @ ''"''
          else '' No attachments found at all in e-mail.'')\<close>

definition seeEmailAttachment ::
  "provider \<Rightarrow> regExp \<Rightarrow> string \<Rightarrow> helper \<Rightarrow> call list \<Rightarrow> (error + unit) \<times> call list" where
  "seeEmailAttachment P re nameRegExp h tr =
     (case hasCurrentEmail h of
        Inl e \<Rightarrow> (Inl e, tr)
      | Inr email \<Rightarrow>
          (case attachmentLoop P re nameRegExp (email_id email) (attachments email) [] tr of
             (Inl e, tr') \<Rightarrow> (Inl e, tr')
           | (Inr Found, tr') \<Rightarrow> (Inr (), tr')
           | (Inr (NotFound foundAttachmentNames), tr') \<Rightarrow>
               (expect_toBeFalsy (notFoundMessage nameRegExp email foundAttachmentNames), tr')))"

section \<open>Observations and examples\<close>

text \<open>A lower-case letter \<open>a\<close> to \<open>z\<close>.\<close>

definition isLowerCase :: "char \<Rightarrow> bool" where
  "isLowerCase c =
     (of_char CHR ''a'' \<le> (of_char c :: nat) \<and> (of_char c :: nat) \<le> of_char CHR ''z'')"

text \<open>The timeouts of the wait calls of a log, in order.\<close>

fun timeoutsPassed :: "call list \<Rightarrow> int list" where
  "timeoutsPassed [] = []"
| "timeoutsPassed (WaitForLatestEmail _ t # cs) = t # timeoutsPassed cs"
| "timeoutsPassed (WaitForMatchingEmails _ _ _ t # cs) = t # timeoutsPassed cs"
| "timeoutsPassed (WaitForNthEmail _ _ t # cs) = t # timeoutsPassed cs"
| "timeoutsPassed (_ # cs) = timeoutsPassed cs"

text \<open>The calls that delete the given mailboxes, and those that resolve the given attachments.\<close>

definition deleteCalls :: "inbox list \<Rightarrow> call list" where
  "deleteCalls ms = map (\<lambda>m. DeleteInbox (inbox_id m)) ms"

definition metaDataCalls :: "string \<Rightarrow> string list \<Rightarrow> call list" where
  "metaDataCalls emailId as = map (\<lambda>a. GetAttachmentMetaData a emailId) as"

text \<open>
  The answers of the provider when these calls are made one after the other, each
  after the ones before it, starting from the log \<open>tr\<close>.
\<close>

definition deleteAnswers :: "provider \<Rightarrow> inbox list \<Rightarrow> call list \<Rightarrow> (string + unit) list" where
  "deleteAnswers P ms tr =
     fst (mapRequests (\<lambda>m. DeleteInbox (inbox_id m))
            (\<lambda>t m. mailslurp_deleteInbox P t (inbox_id m)) ms tr)"

definition metaDataAnswers ::
  "provider \<Rightarrow> string \<Rightarrow> string list \<Rightarrow> call list \<Rightarrow> (string + attachmentMetaData) list" where
  "metaDataAnswers P emailId as tr =
     fst (mapRequests (\<lambda>a. GetAttachmentMetaData a emailId)
            (\<lambda>t a. mailslurp_getAttachmentMetaData P t a emailId) as tr)"

text \<open>
  A provider that answers as the mocked service of the test suite does, one whose
  deletion of the inbox \<open>b\<close> fails, and one whose search finds nothing.
\<close>

definition testEmail :: email where
  "testEmail = \<lparr>email_id = ''email-id'', email_from = ''hello@test.de'', subject = ''Hello Test'',
                 body = ''Testing'', attachments = [''att-1'', ''att-2'']\<rparr>"

definition testProvider :: provider where
  "testProvider =
     \<lparr>mailslurp_createInbox = (\<lambda>tr. Inr \<lparr>inbox_id = ''123'', emailAddress = ''hello@test.de''\<rparr>),
      mailslurp_getInbox = (\<lambda>tr i. Inr \<lparr>inbox_id = i, emailAddress = ''hello@test.de''\<rparr>),
      mailslurp_deleteInbox = (\<lambda>tr i. Inr ()),
      mailslurp_sendEmail = (\<lambda>tr i d. Inr ()),
      mailslurp_waitForLatestEmail = (\<lambda>tr i t. Inr testEmail),
      mailslurp_waitForMatchingEmails = (\<lambda>tr m n i t. Inr [\<lparr>preview_id = ''email-id''\<rparr>]),
      mailslurp_waitForNthEmail = (\<lambda>tr i n t. Inr testEmail),
      mailslurp_getEmails = (\<lambda>tr i. Inr [\<lparr>preview_id = ''email-id''\<rparr>]),
      mailslurp_getEmail = (\<lambda>tr i. Inr testEmail),
      mailslurp_getAttachmentMetaData =
        (\<lambda>tr a e. Inr \<lparr>name = (if a = ''att-1'' then ''README.md'' else ''LICENSE'')\<rparr>)\<rparr>"

definition failingProvider :: provider where
  "failingProvider =
     testProvider\<lparr>mailslurp_deleteInbox :=
       (\<lambda>tr i. if i = ''b'' then Inl ''Inbox not found'' else Inr ())\<rparr>"

definition emptyProvider :: provider where
  "emptyProvider = testProvider\<lparr>mailslurp_waitForMatchingEmails := (\<lambda>tr m n i t. Inr [])\<rparr>"

text \<open>The helper of the test suite after \<open>_before\<close> and \<open>haveNewMailbox\<close>.\<close>

definition testHelper :: helper where
  "testHelper =
     \<lparr>config = \<lparr>apiKey = ''someApiKey'', timeout = 10000, debug = False\<rparr>,
      mailboxes = Some [\<lparr>inbox_id = ''123'', emailAddress = ''hello@test.de''\<rparr>],
      currentMailbox = Some \<lparr>inbox_id = ''123'', emailAddress = ''hello@test.de''\<rparr>,
      currentEmail = None\<rparr>"

text \<open>A helper that has recorded three mailboxes and opened an email.\<close>

definition threeMailboxes :: "inbox list" where
  "threeMailboxes =
     [\<lparr>inbox_id = ''a'', emailAddress = ''a@test.de''\<rparr>,
      \<lparr>inbox_id = ''b'', emailAddress = ''b@test.de''\<rparr>,
      \<lparr>inbox_id = ''c'', emailAddress = ''c@test.de''\<rparr>]"

definition busyHelper :: helper where
  "busyHelper =
     \<lparr>config = \<lparr>apiKey = ''someApiKey'', timeout = 10000, debug = False\<rparr>,
      mailboxes = Some threeMailboxes,
      currentMailbox = Some \<lparr>inbox_id = ''c'', emailAddress = ''c@test.de''\<rparr>,
      currentEmail = Some testEmail\<rparr>"

text \<open>
  A regular-expression engine for patterns without special characters: such a
  pattern matches the strings that contain it.
\<close>

definition plainRegExp :: regExp where
  "plainRegExp pattern = Some (\<lambda>s. sublist pattern s)"

section \<open>General lemmas\<close>

subsection \<open>Requests made for every element of a list\<close>

lemma mapRequests_log: "snd (mapRequests c f xs tr) = tr @ map c xs"
  by (induction xs arbitrary: tr) (simp_all add: case_prod_unfold Let_def)

lemma mapRequests_nth:
  "i < length xs \<Longrightarrow> fst (mapRequests c f xs tr) ! i = f (tr @ map c (take i xs)) (xs ! i)"
proof (induction xs arbitrary: tr i)
  case Nil
  then show ?case by simp
next
  case (Cons x xs)
  show ?case
  proof (cases i)
    case 0
    then show ?thesis by (simp add: case_prod_unfold Let_def)
  next
    case (Suc j)
    with Cons.prems have "j < length xs" by simp
    from Cons.IH [OF this, of "tr @ [c x]"] Suc show ?thesis
      by (simp add: case_prod_unfold Let_def)
  qed
qed

subsection \<open>The example provider and helper\<close>

lemma testProvider_simps:
  "mailslurp_waitForMatchingEmails testProvider tr m n i t = Inr [\<lparr>preview_id = ''email-id''\<rparr>]"
  "mailslurp_getEmail testProvider tr i = Inr testEmail"
  "mailslurp_waitForLatestEmail testProvider tr i t = Inr testEmail"
  "mailslurp_waitForNthEmail testProvider tr i k t = Inr testEmail"
  "mailslurp_getEmails testProvider tr i = Inr [\<lparr>preview_id = ''email-id''\<rparr>]"
  "mailslurp_deleteInbox testProvider tr i = Inr ()"
  "mailslurp_getInbox testProvider tr i = Inr \<lparr>inbox_id = i, emailAddress = ''hello@test.de''\<rparr>"
  "mailslurp_getAttachmentMetaData testProvider tr a e =
     Inr \<lparr>name = (if a = ''att-1'' then ''README.md'' else ''LICENSE'')\<rparr>"
  by (simp_all add: testProvider_def)

lemma testHelper_simps:
  "currentMailbox testHelper = Some \<lparr>inbox_id = ''123'', emailAddress = ''hello@test.de''\<rparr>"
  "currentEmail testHelper = None"
  "mailboxes testHelper = Some [\<lparr>inbox_id = ''123'', emailAddress = ''hello@test.de''\<rparr>]"
  "timeout (config testHelper) = 10000"
  by (simp_all add: testHelper_def)

text \<open>
  The example helper is the state of a test that has created its mailbox, and the
  assertions of the test suite hold of the example email.
\<close>

lemma testHelper_reached:
  "MailSlurp_constructor \<lparr>cfg_apiKey = Some ''someApiKey'', cfg_timeout = None, cfg_debug = None\<rparr>
     = Inr \<lparr>config = \<lparr>apiKey = ''someApiKey'', timeout = 10000, debug = False\<rparr>,
            mailboxes = None, currentMailbox = None, currentEmail = None\<rparr>"
  "haveNewMailbox testProvider
     (MailSlurp_before \<lparr>config = \<lparr>apiKey = ''someApiKey'', timeout = 10000, debug = False\<rparr>,
                         mailboxes = None, currentMailbox = None, currentEmail = None\<rparr>) []
     = (Inr \<lparr>inbox_id = ''123'', emailAddress = ''hello@test.de''\<rparr>, testHelper, [CreateInbox])"
  by (simp_all add: MailSlurp_constructor_def haveNewMailbox_def MailSlurp_before_def await_def
        testProvider_def testHelper_def)

lemma assertions_on_testEmail:
  "seeInEmailSubject ''Hello'' (openEmail testEmail testHelper) = Inr ()"
  "seeEmailSubjectEquals ''Hello Test'' (openEmail testEmail testHelper) = Inr ()"
  "seeEmailIsFrom ''hello@test.de'' (openEmail testEmail testHelper) = Inr ()"
  "seeInEmailBody ''Testing'' (openEmail testEmail testHelper) = Inr ()"
  "dontSeeInEmailBody ''Email'' (openEmail testEmail testHelper) = Inr ()"
  "dontSeeInEmailSubject ''Bye'' (openEmail testEmail testHelper) = Inr ()"
  "seeNumberOfEmailAttachments 2 (openEmail testEmail testHelper) = Inr ()"
  "seeEmailSubjectEquals ''Bye'' (openEmail testEmail testHelper)
     = Inl (JestAssertionError (JString ''Hello Test''))"
  by (simp_all add: seeInEmailSubject_def seeEmailSubjectEquals_def seeEmailIsFrom_def
        seeInEmailBody_def dontSeeInEmailBody_def dontSeeInEmailSubject_def
        seeNumberOfEmailAttachments_def hasCurrentEmail_def openEmail_def testEmail_def
        expect_toContain_def expect_not_toContain_def expect_toEqual_def sublist_code)

subsection \<open>Upper case\<close>

lemma toUpperCase_char_not_lower: "\<not> isLowerCase (toUpperCase_char c)"
proof -
  have "(of_char c :: nat) < 256" by (rule nat_of_char_less_256)
  then show ?thesis
    by (auto simp: toUpperCase_char_def isLowerCase_def Let_def)
qed

lemma toUpperCase_no_lower: "c \<in> set (toUpperCase s) \<Longrightarrow> \<not> isLowerCase c"
  by (auto simp: toUpperCase_def toUpperCase_char_not_lower)

lemma startsWithEquals_iff: "startsWithEquals v \<longleftrightarrow> (\<exists>w. v = CHR ''='' # w)"
  by (cases v) (auto simp: startsWithEquals_def)

lemma matchEmailBy_nth:
  assumes "i < length q"
  shows "matches (matchEmailBy q) ! i =
     \<lparr>field = toUpperCase (fst (q ! i)), value = snd (q ! i),
      should = (if startsWithEquals (snd (q ! i)) then EQUAL else CONTAIN)\<rparr>"
  using assms by (simp add: matchEmailBy_def case_prod_beta)

lemma toUpperCase_examples:
  "toUpperCase ''subject'' = ''SUBJECT''" "toUpperCase ''from'' = ''FROM''"
  by (simp_all add: toUpperCase_def toUpperCase_char_def char_of_eq_iff)

subsection \<open>The first call of a search\<close>

lemma waitForEmailMatching_log:
  assumes "currentMailbox h = Some mb"
  shows "\<exists>rest. snd (snd (waitForEmailMatching P q sec h tr)) =
           tr @ WaitForMatchingEmails (matchEmailBy q) (Some 1) (inbox_id mb)
                  (orTimeout (toMillis sec) (timeout (config h))) # rest"
  using assms
  by (simp add: waitForEmailMatching_def Let_def await_def split: sum.split list.split)

lemma grabEmailsMatching_log:
  assumes "currentMailbox h = Some mb"
  shows "\<exists>rest. snd (snd (grabEmailsMatching P q num h tr)) =
           tr @ WaitForMatchingEmails (matchEmailBy q) num (inbox_id mb) (timeout (config h)) # rest"
  using assms
  by (simp add: grabEmailsMatching_def getEmailOfEach_def Let_def await_def case_prod_unfold
        mapRequests_log split: sum.split)

section \<open>Query translation: one rule per field\<close>

text \<open>
  C1. The translation of a query gives exactly one rule for every field of the query,
  in the order of the query's entries. The rule of an entry has the entry's name in
  upper case (no letter \<open>a\<close> to \<open>z\<close> is left in it), it keeps the entry's
  value as it is, with a leading \<open>=\<close> still in it, and its kind is \<open>EQUAL\<close> exactly
  when the value starts with \<open>=\<close> and \<open>CONTAIN\<close> (the provider's name for
  containment) exactly when it does not.
\<close>

theorem matchEmailBy_one_rule_per_field:
  "length (matches (matchEmailBy q)) = length q \<and>
   (\<forall>i < length q.
      field (matches (matchEmailBy q) ! i) = toUpperCase (fst (q ! i)) \<and>
      \<not> list_ex isLowerCase (field (matches (matchEmailBy q) ! i)) \<and>
      value (matches (matchEmailBy q) ! i) = snd (q ! i) \<and>
      (should (matches (matchEmailBy q) ! i) = EQUAL \<longleftrightarrow> (\<exists>w. snd (q ! i) = CHR ''='' # w)) \<and>
      (should (matches (matchEmailBy q) ! i) = CONTAIN \<longleftrightarrow> \<not> (\<exists>w. snd (q ! i) = CHR ''='' # w)))"
proof -
  have len: "length (matches (matchEmailBy q)) = length q"
    by (simp add: matchEmailBy_def)
  have each: "field (matches (matchEmailBy q) ! i) = toUpperCase (fst (q ! i)) \<and>
      \<not> list_ex isLowerCase (field (matches (matchEmailBy q) ! i)) \<and>
      value (matches (matchEmailBy q) ! i) = snd (q ! i) \<and>
      (should (matches (matchEmailBy q) ! i) = EQUAL \<longleftrightarrow> (\<exists>w. snd (q ! i) = CHR ''='' # w)) \<and>
      (should (matches (matchEmailBy q) ! i) = CONTAIN \<longleftrightarrow> \<not> (\<exists>w. snd (q ! i) = CHR ''='' # w))"
    if "i < length q" for i
    using toUpperCase_no_lower [of _ "fst (q ! i)"]
    by (simp add: matchEmailBy_nth [OF that] list_ex_iff startsWithEquals_iff [symmetric])
  from len each show ?thesis by blast
qed

text \<open>The two-field query of the documentation, rule by rule.\<close>

theorem matchEmailBy_one_rule_per_field_witness:
  "length (matches (matchEmailBy [(''subject'', ''=Forgot password''), (''from'', ''@mysite.com'')])) = 2 \<and>
   field (matches (matchEmailBy [(''subject'', ''=Forgot password''), (''from'', ''@mysite.com'')]) ! 0)
     = ''SUBJECT'' \<and>
   value (matches (matchEmailBy [(''subject'', ''=Forgot password''), (''from'', ''@mysite.com'')]) ! 0)
     = ''=Forgot password'' \<and>
   should (matches (matchEmailBy [(''subject'', ''=Forgot password''), (''from'', ''@mysite.com'')]) ! 0)
     = EQUAL \<and>
   field (matches (matchEmailBy [(''subject'', ''=Forgot password''), (''from'', ''@mysite.com'')]) ! 1)
     = ''FROM'' \<and>
   value (matches (matchEmailBy [(''subject'', ''=Forgot password''), (''from'', ''@mysite.com'')]) ! 1)
     = ''@mysite.com'' \<and>
   should (matches (matchEmailBy [(''subject'', ''=Forgot password''), (''from'', ''@mysite.com'')]) ! 1)
     = CONTAIN"
proof -
  let ?q = "[(''subject'', ''=Forgot password''), (''from'', ''@mysite.com'')]"
  note r = matchEmailBy_one_rule_per_field [of ?q]
  have r0: "(0::nat) < length ?q" and r1: "(1::nat) < length ?q" by simp_all
  from r r0 r1 have
    "should (matches (matchEmailBy ?q) ! 1) = CONTAIN \<longleftrightarrow> \<not> (\<exists>w. snd (?q ! 1) = CHR ''='' # w)"
    by blast
  then have c: "should (matches (matchEmailBy ?q) ! 1) = CONTAIN" by simp
  from r r0 have "field (matches (matchEmailBy ?q) ! 0) = toUpperCase (fst (?q ! 0)) \<and>
     value (matches (matchEmailBy ?q) ! 0) = snd (?q ! 0) \<and>
     (should (matches (matchEmailBy ?q) ! 0) = EQUAL \<longleftrightarrow> (\<exists>w. snd (?q ! 0) = CHR ''='' # w))"
    by blast
  then have a: "field (matches (matchEmailBy ?q) ! 0) = ''SUBJECT'' \<and>
     value (matches (matchEmailBy ?q) ! 0) = ''=Forgot password'' \<and>
     should (matches (matchEmailBy ?q) ! 0) = EQUAL"
    by (simp add: toUpperCase_examples)
  from r r1 have "field (matches (matchEmailBy ?q) ! 1) = toUpperCase (fst (?q ! 1)) \<and>
     value (matches (matchEmailBy ?q) ! 1) = snd (?q ! 1)"
    by blast
  then have b: "field (matches (matchEmailBy ?q) ! 1) = ''FROM'' \<and>
     value (matches (matchEmailBy ?q) ! 1) = ''@mysite.com''"
    by (simp add: toUpperCase_examples)
  from r have "length (matches (matchEmailBy ?q)) = 2" by simp
  with a b c show ?thesis by simp
qed

section \<open>Query translation: the empty query\<close>

text \<open>
  C2, as the code has it. The translation has no check of its argument: for the empty
  query it returns the specification with no rule, it does not fail. A search with the
  empty query passes that specification to the provider's wait operation, as the first
  call it makes, whenever a mailbox is open.
\<close>

theorem empty_query_is_forwarded:
  "matchEmailBy [] = \<lparr>matches = []\<rparr> \<and>
   (currentMailbox h = Some mb \<longrightarrow>
      (\<exists>rest. snd (snd (waitForEmailMatching P [] sec h tr)) =
         tr @ WaitForMatchingEmails \<lparr>matches = []\<rparr> (Some 1) (inbox_id mb)
                (orTimeout (toMillis sec) (timeout (config h))) # rest) \<and>
      (\<exists>rest. snd (snd (grabEmailsMatching P [] num h tr)) =
         tr @ WaitForMatchingEmails \<lparr>matches = []\<rparr> num (inbox_id mb) (timeout (config h)) # rest))"
proof -
  have e: "matchEmailBy [] = \<lparr>matches = []\<rparr>" by (simp add: matchEmailBy_def)
  show ?thesis
    using waitForEmailMatching_log [of h mb P "[]" sec tr]
      grabEmailsMatching_log [of h mb P "[]" num tr]
    by (simp add: e)
qed

theorem empty_query_is_forwarded_witness:
  "currentMailbox testHelper = Some \<lparr>inbox_id = ''123'', emailAddress = ''hello@test.de''\<rparr> \<and>
   (\<exists>rest. snd (snd (waitForEmailMatching testProvider [] None testHelper [])) =
      WaitForMatchingEmails \<lparr>matches = []\<rparr> (Some 1) ''123'' 10000 # rest) \<and>
   (\<exists>rest. snd (snd (grabEmailsMatching testProvider [] (Some 2) testHelper [])) =
      WaitForMatchingEmails \<lparr>matches = []\<rparr> (Some 2) ''123'' 10000 # rest)"
  using empty_query_is_forwarded
          [of testHelper "\<lparr>inbox_id = ''123'', emailAddress = ''hello@test.de''\<rparr>"
              testProvider None "[]" "Some 2"]
  by (simp add: testHelper_simps toMillis_def orTimeout_def)

text \<open>
  C2, as stated, fails: with the example provider, waiting for an email that matches
  the empty query returns an email, after a wait call with an empty list of rules.
\<close>

theorem empty_query_counterexample:
  "matchEmailBy [] = \<lparr>matches = []\<rparr> \<and>
   fst (waitForEmailMatching testProvider [] None testHelper []) = Inr testEmail \<and>
   snd (snd (waitForEmailMatching testProvider [] None testHelper [])) =
     [WaitForMatchingEmails \<lparr>matches = []\<rparr> (Some 1) ''123'' 10000, GetEmail ''email-id'']"
  by (simp add: waitForEmailMatching_def matchEmailBy_def toMillis_def orTimeout_def await_def
        testProvider_simps testHelper_simps)

section \<open>The timeout of a wait operation\<close>

subsection \<open>The calls of the wait operations\<close>

lemma scaleOf_small: "m < 2 ^ 53 \<Longrightarrow> scaleOf m = 0"
  by (simp add: scaleOf.simps)

lemma scaleOf_large: "\<not> m < 2 ^ 53 \<Longrightarrow> scaleOf m = Suc (scaleOf (m div 2))"
  by (subst scaleOf.simps) simp

lemma scaleOf_53: "scaleOf (2 ^ 53) = 1"
proof -
  have "scaleOf (2 ^ 53) = Suc (scaleOf (2 ^ 53 div 2))" by (rule scaleOf_large) simp
  also have "(2::nat) ^ 53 div 2 = 2 ^ 52" by simp
  also have "scaleOf (2 ^ 52) = 0" by (rule scaleOf_small) simp
  finally show ?thesis by simp
qed

lemma roundToDouble_exact:
  assumes "\<bar>n\<bar> \<le> 2 ^ 53"
  shows "roundToDouble n = n"
proof (cases "\<bar>n\<bar> = 2 ^ 53")
  case True
  then have m: "nat \<bar>n\<bar> = 2 ^ 53" by simp
  have "sgn n * \<bar>n\<bar> = n" by (simp add: sgn_mult_abs)
  with True have "sgn n * 2 ^ 53 = n" by simp
  moreover have "scaleOf 9007199254740992 = 1" using scaleOf_53 by simp
  ultimately show ?thesis by (simp add: roundToDouble_def m Let_def)
next
  case False
  with assms have "nat \<bar>n\<bar> < 2 ^ 53" by simp
  then have "scaleOf (nat \<bar>n\<bar>) = 0" by (rule scaleOf_small)
  then show ?thesis by (simp add: roundToDouble_def Let_def sgn_mult_abs)
qed

lemma multiply_exact: "\<bar>a * b\<bar> \<le> 2 ^ 53 \<Longrightarrow> multiply a b = a * b"
  by (simp add: multiply_def roundToDouble_exact)

lemma multiply_examples:
  "multiply 1000 72057594037929 = 72057594037928992"
proof -
  have "scaleOf 72057594037929000 = 4"
    by (simp add: scaleOf_large scaleOf_small)
  then show ?thesis
    by (simp add: multiply_def roundToDouble_def Let_def)
qed

lemma toMillis_simps:
  "toMillis None = None" "toMillis (Some 0) = Some 0"
  "n \<noteq> 0 \<Longrightarrow> toMillis (Some n) = Some (multiply 1000 n)"
  by (simp_all add: toMillis_def)

lemma orTimeout_toMillis_exact:
  assumes "n \<noteq> 0" and "\<bar>n * 1000\<bar> \<le> 2 ^ 53"
  shows "orTimeout (toMillis (Some n)) d = n * 1000"
proof -
  from assms(2) have "multiply 1000 n = n * 1000"
    by (simp add: multiply_exact mult.commute)
  with assms(1) show ?thesis by (simp add: toMillis_def orTimeout_def)
qed

lemma orTimeout_simps:
  "orTimeout None d = d" "orTimeout (Some 0) d = d" "n \<noteq> 0 \<Longrightarrow> orTimeout (Some n) d = n"
  by (simp_all add: orTimeout_def)

lemma timeoutsPassed_append: "timeoutsPassed (xs @ ys) = timeoutsPassed xs @ timeoutsPassed ys"
  by (induction xs rule: timeoutsPassed.induct) simp_all

lemma waitForLatestEmail_log:
  "currentMailbox h = Some mb \<Longrightarrow>
   snd (snd (waitForLatestEmail P sec h tr)) =
     tr @ [WaitForLatestEmail (inbox_id mb) (orTimeout (toMillis sec) (timeout (config h)))]"
  by (simp add: waitForLatestEmail_def Let_def await_def split: sum.split)

lemma waitForNthEmail_log:
  "currentMailbox h = Some mb \<Longrightarrow>
   snd (snd (waitForNthEmail P number sec h tr)) =
     tr @ [WaitForNthEmail (inbox_id mb) number (orTimeout (toMillis sec) (timeout (config h)))]"
  by (simp add: waitForNthEmail_def Let_def await_def split: sum.split)

lemma waitForEmailMatching_cases:
  assumes "currentMailbox h = Some mb"
    and "w = WaitForMatchingEmails (matchEmailBy q) (Some 1) (inbox_id mb)
               (orTimeout (toMillis sec) (timeout (config h)))"
  shows "snd (snd (waitForEmailMatching P q sec h tr)) = tr @ [w] \<or>
         (\<exists>i. snd (snd (waitForEmailMatching P q sec h tr)) = tr @ [w, GetEmail i])"
  using assms
  by (simp add: waitForEmailMatching_def Let_def await_def split: sum.split list.split)

lemma waitForEmailMatching_timeouts:
  assumes "currentMailbox h = Some mb"
  shows "timeoutsPassed (snd (snd (waitForEmailMatching P q sec h tr))) =
           timeoutsPassed tr @ [orTimeout (toMillis sec) (timeout (config h))]"
  using waitForEmailMatching_cases [OF assms refl, where q = q and sec = sec and P = P and tr = tr]
  by (auto simp: timeoutsPassed_append)

lemma waitForLatestEmail_timeouts:
  assumes "currentMailbox h = Some mb"
  shows "timeoutsPassed (snd (snd (waitForLatestEmail P sec h tr))) =
           timeoutsPassed tr @ [orTimeout (toMillis sec) (timeout (config h))]"
  by (simp add: waitForLatestEmail_log [OF assms] timeoutsPassed_append)

lemma waitForNthEmail_timeouts:
  assumes "currentMailbox h = Some mb"
  shows "timeoutsPassed (snd (snd (waitForNthEmail P number sec h tr))) =
           timeoutsPassed tr @ [orTimeout (toMillis sec) (timeout (config h))]"
  by (simp add: waitForNthEmail_log [OF assms] timeoutsPassed_append)

lemma constructor_timeout:
  "MailSlurp_constructor c = Inr h \<Longrightarrow>
   timeout (config h) = (case cfg_timeout c of None \<Rightarrow> 10000 | Some t \<Rightarrow> t)"
  by (auto simp: MailSlurp_constructor_def Let_def split: option.splits if_splits)

lemma emptyProvider_simps:
  "mailslurp_waitForMatchingEmails emptyProvider tr m n i t = Inr []"
  by (simp add: emptyProvider_def)

lemma matchEmailBy_example:
  "matchEmailBy [(''subject'', ''Hello'')] =
     \<lparr>matches = [\<lparr>field = ''SUBJECT'', value = ''Hello'', should = CONTAIN\<rparr>]\<rparr>"
  by (simp add: matchEmailBy_def startsWithEquals_def toUpperCase_examples)

subsection \<open>Seconds and milliseconds\<close>

text \<open>
  C4, as the code has it. With a mailbox open, each wait operation (\<open>waitForLatestEmail\<close>,
  \<open>waitForEmailMatching\<close>, \<open>waitForNthEmail\<close>) makes exactly one wait call to the
  provider. Without a wait time the timeout of that call is the configured one; with a
  wait time of \<open>sec\<close> whole seconds other than \<open>0\<close>, with \<open>sec * 1000\<close> at most
  \<open>2 ^ 53\<close> in absolute value, it is exactly \<open>sec * 1000\<close>. The configured timeout
  is the one given at construction, and \<open>10000\<close> when none is given.
\<close>

theorem wait_timeout_in_milliseconds:
  "(currentMailbox h = Some mb \<longrightarrow>
      timeoutsPassed (snd (snd (waitForLatestEmail P None h tr)))
        = timeoutsPassed tr @ [timeout (config h)] \<and>
      timeoutsPassed (snd (snd (waitForEmailMatching P q None h tr)))
        = timeoutsPassed tr @ [timeout (config h)] \<and>
      timeoutsPassed (snd (snd (waitForNthEmail P number None h tr)))
        = timeoutsPassed tr @ [timeout (config h)]) \<and>
   (currentMailbox h = Some mb \<and> sec \<noteq> 0 \<and> \<bar>sec * 1000\<bar> \<le> 2 ^ 53 \<longrightarrow>
      timeoutsPassed (snd (snd (waitForLatestEmail P (Some sec) h tr)))
        = timeoutsPassed tr @ [sec * 1000] \<and>
      timeoutsPassed (snd (snd (waitForEmailMatching P q (Some sec) h tr)))
        = timeoutsPassed tr @ [sec * 1000] \<and>
      timeoutsPassed (snd (snd (waitForNthEmail P number (Some sec) h tr)))
        = timeoutsPassed tr @ [sec * 1000]) \<and>
   (MailSlurp_constructor c = Inr h0 \<longrightarrow>
      timeout (config h0) = (case cfg_timeout c of None \<Rightarrow> 10000 | Some t \<Rightarrow> t))"
  by (simp add: waitForLatestEmail_timeouts waitForEmailMatching_timeouts
        waitForNthEmail_timeouts toMillis_simps(1) orTimeout_simps(1) orTimeout_toMillis_exact
        constructor_timeout)

theorem wait_timeout_in_milliseconds_witness:
  "currentMailbox testHelper = Some \<lparr>inbox_id = ''123'', emailAddress = ''hello@test.de''\<rparr> \<and>
   (30::int) \<noteq> 0 \<and> \<bar>(30::int) * 1000\<bar> \<le> 2 ^ 53 \<and>
   timeoutsPassed (snd (snd (waitForLatestEmail testProvider None testHelper []))) = [10000] \<and>
   timeoutsPassed (snd (snd (waitForEmailMatching testProvider [(''subject'', ''Hello'')] None
      testHelper []))) = [10000] \<and>
   timeoutsPassed (snd (snd (waitForNthEmail testProvider 2 None testHelper []))) = [10000] \<and>
   timeoutsPassed (snd (snd (waitForLatestEmail testProvider (Some 30) testHelper []))) = [30000] \<and>
   timeoutsPassed (snd (snd (waitForEmailMatching testProvider [(''subject'', ''Hello'')] (Some 30)
      testHelper []))) = [30000] \<and>
   timeoutsPassed (snd (snd (waitForNthEmail testProvider 2 (Some 30) testHelper []))) = [30000] \<and>
   MailSlurp_constructor \<lparr>cfg_apiKey = Some ''someApiKey'', cfg_timeout = None, cfg_debug = None\<rparr> =
     Inr \<lparr>config = \<lparr>apiKey = ''someApiKey'', timeout = 10000, debug = False\<rparr>,
          mailboxes = None, currentMailbox = None, currentEmail = None\<rparr>"
  using wait_timeout_in_milliseconds
          [where h = testHelper and mb = "\<lparr>inbox_id = ''123'', emailAddress = ''hello@test.de''\<rparr>"
             and tr = "[]" and P = testProvider and q = "[(''subject'', ''Hello'')]" and number = 2
             and sec = 30
             and c = "\<lparr>cfg_apiKey = Some ''someApiKey'', cfg_timeout = None, cfg_debug = None\<rparr>"
             and ?h0.0 = "\<lparr>config = \<lparr>apiKey = ''someApiKey'', timeout = 10000, debug = False\<rparr>,
                          mailboxes = None, currentMailbox = None, currentEmail = None\<rparr>"]
  by (simp add: testHelper_simps testHelper_reached(1))

text \<open>
  C4, as stated, fails twice. For the explicit wait time of \<open>0\<close> seconds the timeout
  passed is the configured \<open>10000\<close>, not \<open>0 * 1000\<close>. And for the wait time of
  \<open>72057594037929\<close> seconds, a whole number below \<open>2 ^ 53\<close>, the product is rounded:
  the timeout passed is \<open>72057594037928992\<close>, not \<open>72057594037929000\<close>.
\<close>

theorem explicit_zero_seconds_counterexample:
  "timeoutsPassed (snd (snd (waitForLatestEmail testProvider (Some 0) testHelper []))) = [10000] \<and>
   timeoutsPassed (snd (snd (waitForLatestEmail testProvider (Some 0) testHelper []))) \<noteq> [0 * 1000] \<and>
   timeoutsPassed (snd (snd (waitForLatestEmail testProvider (Some 72057594037929) testHelper [])))
     = [72057594037928992] \<and>
   timeoutsPassed (snd (snd (waitForLatestEmail testProvider (Some 72057594037929) testHelper [])))
     \<noteq> [72057594037929 * 1000]"
  by (simp add: waitForLatestEmail_def toMillis_def orTimeout_def await_def
        testProvider_simps testHelper_simps multiply_examples)

subsection \<open>Zero seconds\<close>

text \<open>
  C9. For each wait operation, a wait time of \<open>0\<close> seconds gives the same result, the
  same state and the same calls as no wait time; with a mailbox open, the timeout
  passed to the provider is then the configured one, which is \<open>10000\<close> when the
  configuration gives none.
\<close>

theorem zero_seconds_is_no_wait_time:
  "waitForLatestEmail P (Some 0) h tr = waitForLatestEmail P None h tr \<and>
   waitForEmailMatching P q (Some 0) h tr = waitForEmailMatching P q None h tr \<and>
   waitForNthEmail P number (Some 0) h tr = waitForNthEmail P number None h tr \<and>
   (currentMailbox h = Some mb \<longrightarrow>
      timeoutsPassed (snd (snd (waitForLatestEmail P (Some 0) h tr)))
        = timeoutsPassed tr @ [timeout (config h)] \<and>
      timeoutsPassed (snd (snd (waitForEmailMatching P q (Some 0) h tr)))
        = timeoutsPassed tr @ [timeout (config h)] \<and>
      timeoutsPassed (snd (snd (waitForNthEmail P number (Some 0) h tr)))
        = timeoutsPassed tr @ [timeout (config h)]) \<and>
   (MailSlurp_constructor c = Inr h0 \<and> cfg_timeout c = None \<longrightarrow> timeout (config h0) = 10000)"
proof -
  have same: "waitForLatestEmail P (Some 0) h tr = waitForLatestEmail P None h tr"
    "waitForEmailMatching P q (Some 0) h tr = waitForEmailMatching P q None h tr"
    "waitForNthEmail P number (Some 0) h tr = waitForNthEmail P number None h tr"
    by (simp_all add: waitForLatestEmail_def waitForEmailMatching_def waitForNthEmail_def
          toMillis_simps orTimeout_simps Let_def split: option.split)
  have d: "MailSlurp_constructor c = Inr h0 \<and> cfg_timeout c = None \<longrightarrow> timeout (config h0) = 10000"
    by (auto dest: constructor_timeout)
  show ?thesis
    by (simp add: same waitForLatestEmail_timeouts waitForEmailMatching_timeouts
          waitForNthEmail_timeouts toMillis_simps orTimeout_simps d)
qed

theorem zero_seconds_is_no_wait_time_witness:
  "currentMailbox testHelper = Some \<lparr>inbox_id = ''123'', emailAddress = ''hello@test.de''\<rparr> \<and>
   timeoutsPassed (snd (snd (waitForLatestEmail testProvider (Some 0) testHelper []))) = [10000] \<and>
   timeoutsPassed (snd (snd (waitForEmailMatching testProvider [(''subject'', ''Hello'')] (Some 0)
      testHelper []))) = [10000] \<and>
   timeoutsPassed (snd (snd (waitForNthEmail testProvider 2 (Some 0) testHelper []))) = [10000] \<and>
   MailSlurp_constructor \<lparr>cfg_apiKey = Some ''someApiKey'', cfg_timeout = None, cfg_debug = None\<rparr> =
     Inr \<lparr>config = \<lparr>apiKey = ''someApiKey'', timeout = 10000, debug = False\<rparr>,
          mailboxes = None, currentMailbox = None, currentEmail = None\<rparr>"
  using zero_seconds_is_no_wait_time
          [where h = testHelper and mb = "\<lparr>inbox_id = ''123'', emailAddress = ''hello@test.de''\<rparr>"
             and tr = "[]" and P = testProvider and q = "[(''subject'', ''Hello'')]" and number = 2
             and c = "\<lparr>cfg_apiKey = Some ''someApiKey'', cfg_timeout = None, cfg_debug = None\<rparr>"
             and ?h0.0 = "\<lparr>config = \<lparr>apiKey = ''someApiKey'', timeout = 10000, debug = False\<rparr>,
                          mailboxes = None, currentMailbox = None, currentEmail = None\<rparr>"]
  by (auto simp: testHelper_simps testHelper_reached(1))

section \<open>Waiting for a matching email\<close>

text \<open>
  C10. With a mailbox open, \<open>waitForEmailMatching\<close> asks the provider for one matching
  preview (the count of its wait call \<open>w\<close> is \<open>1\<close>), and that is its only wait call:
  the calls it makes are \<open>w\<close> alone, or \<open>w\<close> and one \<open>getEmail\<close>. When the provider
  answers with an empty list, the operation fails with the \<open>TypeError\<close> of reading
  \<open>id\<close> of the missing first element, the state unchanged and no further call made.
  When it answers with a list that has a first element, the operation resolves that
  one, whatever follows it, and its result is the answer to that \<open>getEmail\<close>.
\<close>

theorem first_preview_is_read:
  "currentMailbox h = Some mb \<and>
   w = WaitForMatchingEmails (matchEmailBy q) (Some 1) (inbox_id mb)
         (orTimeout (toMillis sec) (timeout (config h))) \<longrightarrow>
     (snd (snd (waitForEmailMatching P q sec h tr)) = tr @ [w] \<or>
      (\<exists>i. snd (snd (waitForEmailMatching P q sec h tr)) = tr @ [w, GetEmail i])) \<and>
     (mailslurp_waitForMatchingEmails P tr (matchEmailBy q) (Some 1) (inbox_id mb)
          (orTimeout (toMillis sec) (timeout (config h))) = Inr [] \<longrightarrow>
        waitForEmailMatching P q sec h tr = (Inl TypeError, h, tr @ [w])) \<and>
     (mailslurp_waitForMatchingEmails P tr (matchEmailBy q) (Some 1) (inbox_id mb)
          (orTimeout (toMillis sec) (timeout (config h))) = Inr (p # ps) \<longrightarrow>
        snd (snd (waitForEmailMatching P q sec h tr)) = tr @ [w, GetEmail (preview_id p)] \<and>
        fst (waitForEmailMatching P q sec h tr)
          = await (mailslurp_getEmail P (tr @ [w]) (preview_id p)))"
proof (intro impI, elim conjE)
  assume mb: "currentMailbox h = Some mb"
    and w: "w = WaitForMatchingEmails (matchEmailBy q) (Some 1) (inbox_id mb)
         (orTimeout (toMillis sec) (timeout (config h)))"
  have a: "snd (snd (waitForEmailMatching P q sec h tr)) = tr @ [w] \<or>
      (\<exists>i. snd (snd (waitForEmailMatching P q sec h tr)) = tr @ [w, GetEmail i])"
    by (rule waitForEmailMatching_cases [OF mb w])
  have b: "waitForEmailMatching P q sec h tr = (Inl TypeError, h, tr @ [w])"
    if "mailslurp_waitForMatchingEmails P tr (matchEmailBy q) (Some 1) (inbox_id mb)
          (orTimeout (toMillis sec) (timeout (config h))) = Inr []"
    using that mb by (simp add: waitForEmailMatching_def Let_def await_def w)
  have c: "snd (snd (waitForEmailMatching P q sec h tr)) = tr @ [w, GetEmail (preview_id p)] \<and>
        fst (waitForEmailMatching P q sec h tr)
          = await (mailslurp_getEmail P (tr @ [w]) (preview_id p))"
    if "mailslurp_waitForMatchingEmails P tr (matchEmailBy q) (Some 1) (inbox_id mb)
          (orTimeout (toMillis sec) (timeout (config h))) = Inr (p # ps)"
    using that mb by (simp add: waitForEmailMatching_def Let_def await_def w split: sum.split)
  from a b c show "(snd (snd (waitForEmailMatching P q sec h tr)) = tr @ [w] \<or>
      (\<exists>i. snd (snd (waitForEmailMatching P q sec h tr)) = tr @ [w, GetEmail i])) \<and>
     (mailslurp_waitForMatchingEmails P tr (matchEmailBy q) (Some 1) (inbox_id mb)
          (orTimeout (toMillis sec) (timeout (config h))) = Inr [] \<longrightarrow>
        waitForEmailMatching P q sec h tr = (Inl TypeError, h, tr @ [w])) \<and>
     (mailslurp_waitForMatchingEmails P tr (matchEmailBy q) (Some 1) (inbox_id mb)
          (orTimeout (toMillis sec) (timeout (config h))) = Inr (p # ps) \<longrightarrow>
        snd (snd (waitForEmailMatching P q sec h tr)) = tr @ [w, GetEmail (preview_id p)] \<and>
        fst (waitForEmailMatching P q sec h tr)
          = await (mailslurp_getEmail P (tr @ [w]) (preview_id p)))"
    by blast
qed

theorem first_preview_is_read_witness:
  "currentMailbox testHelper = Some \<lparr>inbox_id = ''123'', emailAddress = ''hello@test.de''\<rparr> \<and>
   mailslurp_waitForMatchingEmails emptyProvider []
     \<lparr>matches = [\<lparr>field = ''SUBJECT'', value = ''Hello'', should = CONTAIN\<rparr>]\<rparr>
     (Some 1) ''123'' 10000 = Inr [] \<and>
   waitForEmailMatching emptyProvider [(''subject'', ''Hello'')] None testHelper [] =
     (Inl TypeError, testHelper,
      [WaitForMatchingEmails \<lparr>matches = [\<lparr>field = ''SUBJECT'', value = ''Hello'', should = CONTAIN\<rparr>]\<rparr>
         (Some 1) ''123'' 10000]) \<and>
   mailslurp_waitForMatchingEmails testProvider []
     \<lparr>matches = [\<lparr>field = ''SUBJECT'', value = ''Hello'', should = CONTAIN\<rparr>]\<rparr>
     (Some 1) ''123'' 10000 = Inr [\<lparr>preview_id = ''email-id''\<rparr>] \<and>
   snd (snd (waitForEmailMatching testProvider [(''subject'', ''Hello'')] None testHelper [])) =
     [WaitForMatchingEmails \<lparr>matches = [\<lparr>field = ''SUBJECT'', value = ''Hello'', should = CONTAIN\<rparr>]\<rparr>
        (Some 1) ''123'' 10000,
      GetEmail ''email-id''] \<and>
   fst (waitForEmailMatching testProvider [(''subject'', ''Hello'')] None testHelper []) = Inr testEmail"
  using first_preview_is_read
          [where h = testHelper and mb = "\<lparr>inbox_id = ''123'', emailAddress = ''hello@test.de''\<rparr>"
             and tr = "[]" and P = emptyProvider and q = "[(''subject'', ''Hello'')]" and sec = None
             and w = "WaitForMatchingEmails
                        \<lparr>matches = [\<lparr>field = ''SUBJECT'', value = ''Hello'', should = CONTAIN\<rparr>]\<rparr>
                        (Some 1) ''123'' 10000"]
        first_preview_is_read
          [where h = testHelper and mb = "\<lparr>inbox_id = ''123'', emailAddress = ''hello@test.de''\<rparr>"
             and tr = "[]" and P = testProvider and q = "[(''subject'', ''Hello'')]" and sec = None
             and w = "WaitForMatchingEmails
                        \<lparr>matches = [\<lparr>field = ''SUBJECT'', value = ''Hello'', should = CONTAIN\<rparr>]\<rparr>
                        (Some 1) ''123'' 10000"
             and p = "\<lparr>preview_id = ''email-id''\<rparr>" and ps = "[]"]
  by (simp add: testHelper_simps testProvider_simps emptyProvider_simps matchEmailBy_example
        toMillis_def orTimeout_def await_def)

section \<open>Which operations open an email\<close>

lemma waitForLatestEmail_opens:
  "waitForLatestEmail P sec h tr = (Inr e, h', tr') \<Longrightarrow> h' = h\<lparr>currentEmail := Some e\<rparr>"
  by (auto simp: waitForLatestEmail_def Let_def split: option.splits sum.splits)

lemma waitForEmailMatching_opens:
  "waitForEmailMatching P q sec h tr = (Inr e, h', tr') \<Longrightarrow> h' = h\<lparr>currentEmail := Some e\<rparr>"
  by (auto simp: waitForEmailMatching_def Let_def split: option.splits sum.splits list.splits)

lemma waitForNthEmail_opens:
  "waitForNthEmail P number sec h tr = (Inr e, h', tr') \<Longrightarrow> h' = h\<lparr>currentEmail := Some e\<rparr>"
  by (auto simp: waitForNthEmail_def Let_def split: option.splits sum.splits)

lemma grabEmailsMatching_state: "fst (snd (grabEmailsMatching P q num h tr)) = h"
  by (simp add: grabEmailsMatching_def Let_def case_prod_unfold split: option.split sum.split)

lemma grabAllEmailsFromMailbox_state: "fst (snd (grabAllEmailsFromMailbox P h tr)) = h"
  by (simp add: grabAllEmailsFromMailbox_def Let_def case_prod_unfold split: option.split sum.split)

lemma test_runs:
  "waitForLatestEmail testProvider None testHelper [] =
     (Inr testEmail, testHelper\<lparr>currentEmail := Some testEmail\<rparr>, [WaitForLatestEmail ''123'' 10000])"
  "waitForEmailMatching testProvider [(''subject'', ''Hello'')] None testHelper [] =
     (Inr testEmail, testHelper\<lparr>currentEmail := Some testEmail\<rparr>,
      [WaitForMatchingEmails \<lparr>matches = [\<lparr>field = ''SUBJECT'', value = ''Hello'', should = CONTAIN\<rparr>]\<rparr>
         (Some 1) ''123'' 10000,
       GetEmail ''email-id''])"
  "waitForNthEmail testProvider 2 None testHelper [] =
     (Inr testEmail, testHelper\<lparr>currentEmail := Some testEmail\<rparr>, [WaitForNthEmail ''123'' 2 10000])"
  by (simp_all add: waitForLatestEmail_def waitForEmailMatching_def waitForNthEmail_def
        toMillis_def orTimeout_def await_def testProvider_simps testHelper_simps
        matchEmailBy_example)

text \<open>
  C5. When one of the wait operations for a single email (\<open>waitForLatestEmail\<close>,
  \<open>waitForEmailMatching\<close>, \<open>waitForNthEmail\<close>) returns an email, the state it leaves
  is the state it started from with \<open>currentEmail\<close> set to that email. The two grab
  operations leave the whole state of the helper (\<open>currentEmail\<close>, \<open>currentMailbox\<close>,
  \<open>mailboxes\<close>) as it was, whatever they return.
\<close>

theorem only_single_waits_open_an_email:
  "(waitForLatestEmail P sec h tr = (Inr e1, h1, tr1) \<longrightarrow> h1 = h\<lparr>currentEmail := Some e1\<rparr>) \<and>
   (waitForEmailMatching P q sec h tr = (Inr e2, h2, tr2) \<longrightarrow> h2 = h\<lparr>currentEmail := Some e2\<rparr>) \<and>
   (waitForNthEmail P number sec h tr = (Inr e3, h3, tr3) \<longrightarrow> h3 = h\<lparr>currentEmail := Some e3\<rparr>) \<and>
   fst (snd (grabEmailsMatching P q num h tr)) = h \<and>
   fst (snd (grabAllEmailsFromMailbox P h tr)) = h"
  using waitForLatestEmail_opens [of P sec h tr e1 h1 tr1]
    waitForEmailMatching_opens [of P q sec h tr e2 h2 tr2]
    waitForNthEmail_opens [of P number sec h tr e3 h3 tr3]
  by (simp add: grabEmailsMatching_state grabAllEmailsFromMailbox_state)

theorem only_single_waits_open_an_email_witness:
  "waitForLatestEmail testProvider None testHelper [] =
     (Inr testEmail, testHelper\<lparr>currentEmail := Some testEmail\<rparr>, [WaitForLatestEmail ''123'' 10000]) \<and>
   waitForEmailMatching testProvider [(''subject'', ''Hello'')] None testHelper [] =
     (Inr testEmail, testHelper\<lparr>currentEmail := Some testEmail\<rparr>,
      [WaitForMatchingEmails \<lparr>matches = [\<lparr>field = ''SUBJECT'', value = ''Hello'', should = CONTAIN\<rparr>]\<rparr>
         (Some 1) ''123'' 10000,
       GetEmail ''email-id'']) \<and>
   waitForNthEmail testProvider 2 None testHelper [] =
     (Inr testEmail, testHelper\<lparr>currentEmail := Some testEmail\<rparr>, [WaitForNthEmail ''123'' 2 10000]) \<and>
   currentEmail (testHelper\<lparr>currentEmail := Some testEmail\<rparr>) = Some testEmail \<and>
   fst (snd (grabEmailsMatching testProvider [(''subject'', ''Hello'')] (Some 2) testHelper []))
     = testHelper \<and>
   fst (snd (grabAllEmailsFromMailbox testProvider testHelper [])) = testHelper"
  using only_single_waits_open_an_email
          [where P = testProvider and sec = None and h = testHelper and tr = "[]"
             and q = "[(''subject'', ''Hello'')]" and number = 2 and num = "Some 2"
             and ?e1.0 = testEmail and ?e2.0 = testEmail and ?e3.0 = testEmail
             and ?h1.0 = "testHelper\<lparr>currentEmail := Some testEmail\<rparr>"
             and ?h2.0 = "testHelper\<lparr>currentEmail := Some testEmail\<rparr>"
             and ?h3.0 = "testHelper\<lparr>currentEmail := Some testEmail\<rparr>"
             and ?tr1.0 = "[WaitForLatestEmail ''123'' 10000]"
             and ?tr2.0 = "[WaitForMatchingEmails
                \<lparr>matches = [\<lparr>field = ''SUBJECT'', value = ''Hello'', should = CONTAIN\<rparr>]\<rparr>
                (Some 1) ''123'' 10000, GetEmail ''email-id'']"
             and ?tr3.0 = "[WaitForNthEmail ''123'' 2 10000]"]
  by (simp add: test_runs)

section \<open>Assertions without an open email\<close>

lemma hasCurrentEmail_None:
  "currentEmail h = None \<Longrightarrow>
   hasCurrentEmail h = Inl (Error ''No email opened. Open an email with waitForEmail* methods'')"
  by (simp add: hasCurrentEmail_def)

text \<open>
  C6. While no email is open, each of the nine content assertions fails with the
  error \<open>No email opened\<close> of \<open>_hasCurrentEmail\<close>, whatever its argument;
  \<open>seeEmailAttachment\<close>, the only one that talks to the provider, makes no call.
\<close>

theorem assertions_need_an_open_email:
  "currentEmail h = None \<longrightarrow>
     seeInEmailSubject text h
       = Inl (Error ''No email opened. Open an email with waitForEmail* methods'') \<and>
     dontSeeInEmailSubject text h
       = Inl (Error ''No email opened. Open an email with waitForEmail* methods'') \<and>
     seeInEmailBody text h
       = Inl (Error ''No email opened. Open an email with waitForEmail* methods'') \<and>
     dontSeeInEmailBody text h
       = Inl (Error ''No email opened. Open an email with waitForEmail* methods'') \<and>
     seeEmailIsFrom text h
       = Inl (Error ''No email opened. Open an email with waitForEmail* methods'') \<and>
     seeEmailSubjectEquals text h
       = Inl (Error ''No email opened. Open an email with waitForEmail* methods'') \<and>
     dontSeeEmailSubjectEquals text h
       = Inl (Error ''No email opened. Open an email with waitForEmail* methods'') \<and>
     seeNumberOfEmailAttachments number h
       = Inl (Error ''No email opened. Open an email with waitForEmail* methods'') \<and>
     seeEmailAttachment P re nameRegExp h tr
       = (Inl (Error ''No email opened. Open an email with waitForEmail* methods''), tr)"
  by (simp add: hasCurrentEmail_None seeInEmailSubject_def dontSeeInEmailSubject_def
        seeInEmailBody_def dontSeeInEmailBody_def seeEmailIsFrom_def seeEmailSubjectEquals_def
        dontSeeEmailSubjectEquals_def seeNumberOfEmailAttachments_def seeEmailAttachment_def)

theorem assertions_need_an_open_email_witness:
  "currentEmail testHelper = None \<and>
   seeInEmailSubject ''Hello'' testHelper
     = Inl (Error ''No email opened. Open an email with waitForEmail* methods'') \<and>
   dontSeeInEmailSubject ''Bye'' testHelper
     = Inl (Error ''No email opened. Open an email with waitForEmail* methods'') \<and>
   seeInEmailBody ''Testing'' testHelper
     = Inl (Error ''No email opened. Open an email with waitForEmail* methods'') \<and>
   dontSeeInEmailBody ''Email'' testHelper
     = Inl (Error ''No email opened. Open an email with waitForEmail* methods'') \<and>
   seeEmailIsFrom ''hello@test.de'' testHelper
     = Inl (Error ''No email opened. Open an email with waitForEmail* methods'') \<and>
   seeEmailSubjectEquals ''Hello Test'' testHelper
     = Inl (Error ''No email opened. Open an email with waitForEmail* methods'') \<and>
   dontSeeEmailSubjectEquals ''Bye'' testHelper
     = Inl (Error ''No email opened. Open an email with waitForEmail* methods'') \<and>
   seeNumberOfEmailAttachments 1 testHelper
     = Inl (Error ''No email opened. Open an email with waitForEmail* methods'') \<and>
   seeEmailAttachment testProvider plainRegExp ''README'' testHelper []
     = (Inl (Error ''No email opened. Open an email with waitForEmail* methods''), [])"
  using assertions_need_an_open_email
          [where h = testHelper and P = testProvider and re = plainRegExp and tr = "[]"]
  by (simp add: testHelper_simps)

section \<open>Using an existing mailbox\<close>

lemma MailSlurp_after_log:
  "snd (snd (MailSlurp_after P h tr)) =
     tr @ deleteCalls (case mailboxes h of None \<Rightarrow> [] | Some ms \<Rightarrow> ms)"
  by (simp add: MailSlurp_after_def deleteCalls_def Let_def case_prod_unfold mapRequests_log
        split: option.split sum.split)

text \<open>
  C7. \<open>haveExistingMailbox\<close> with no id or with the empty id fails with the error that
  asks for the id, makes no call and leaves the state as it was. With an id it makes
  exactly one call, \<open>getInbox\<close> of that id; when the provider answers with an inbox
  (and \<open>_before\<close> has set up the list of mailboxes) the inbox is returned, appended to
  the recorded mailboxes and made the current mailbox, so that a later \<open>_after\<close> calls
  \<open>deleteInbox\<close> for it.
\<close>

theorem haveExistingMailbox_needs_an_id:
  "(mailboxId = None \<or> mailboxId = Some [] \<longrightarrow>
      haveExistingMailbox P mailboxId h tr =
        (Inl (Error ''Id of existing mailbox must be provided in parameters.''), h, tr)) \<and>
   (i \<noteq> [] \<longrightarrow> snd (snd (haveExistingMailbox P (Some i) h tr)) = tr @ [GetInbox i]) \<and>
   (i \<noteq> [] \<and> mailslurp_getInbox P tr i = Inr inbox \<and> mailboxes h = Some ms \<longrightarrow>
      haveExistingMailbox P (Some i) h tr =
        (Inr inbox, h\<lparr>mailboxes := Some (ms @ [inbox]), currentMailbox := Some inbox\<rparr>,
         tr @ [GetInbox i]) \<and>
      DeleteInbox (inbox_id inbox) \<in>
        set (drop (length tr')
          (snd (snd (MailSlurp_after P' (fst (snd (haveExistingMailbox P (Some i) h tr))) tr'))))
      )"
proof -
  have a: "haveExistingMailbox P mailboxId h tr =
        (Inl (Error ''Id of existing mailbox must be provided in parameters.''), h, tr)"
    if "mailboxId = None \<or> mailboxId = Some []"
    using that by (auto simp: haveExistingMailbox_def)
  have b: "snd (snd (haveExistingMailbox P (Some i) h tr)) = tr @ [GetInbox i]" if "i \<noteq> []"
    using that
    by (simp add: haveExistingMailbox_def Let_def await_def split: sum.split option.split)
  have c: "haveExistingMailbox P (Some i) h tr =
        (Inr inbox, h\<lparr>mailboxes := Some (ms @ [inbox]), currentMailbox := Some inbox\<rparr>,
         tr @ [GetInbox i])"
    if "i \<noteq> []" "mailslurp_getInbox P tr i = Inr inbox" "mailboxes h = Some ms"
    using that by (simp add: haveExistingMailbox_def Let_def await_def)
  have d: "DeleteInbox (inbox_id inbox) \<in>
        set (drop (length tr')
          (snd (snd (MailSlurp_after P' (fst (snd (haveExistingMailbox P (Some i) h tr))) tr'))))"
    if "i \<noteq> []" "mailslurp_getInbox P tr i = Inr inbox" "mailboxes h = Some ms"
    by (simp add: c [OF that] MailSlurp_after_log deleteCalls_def)
  from a b c d show ?thesis by blast
qed

theorem haveExistingMailbox_needs_an_id_witness:
  "haveExistingMailbox testProvider None testHelper [] =
     (Inl (Error ''Id of existing mailbox must be provided in parameters.''), testHelper, []) \<and>
   ''94cxxxf4'' \<noteq> [] \<and>
   mailslurp_getInbox testProvider [] ''94cxxxf4''
     = Inr \<lparr>inbox_id = ''94cxxxf4'', emailAddress = ''hello@test.de''\<rparr> \<and>
   mailboxes testHelper = Some [\<lparr>inbox_id = ''123'', emailAddress = ''hello@test.de''\<rparr>] \<and>
   haveExistingMailbox testProvider (Some ''94cxxxf4'') testHelper [] =
     (Inr \<lparr>inbox_id = ''94cxxxf4'', emailAddress = ''hello@test.de''\<rparr>,
      testHelper\<lparr>mailboxes := Some [\<lparr>inbox_id = ''123'', emailAddress = ''hello@test.de''\<rparr>,
                                     \<lparr>inbox_id = ''94cxxxf4'', emailAddress = ''hello@test.de''\<rparr>],
                 currentMailbox := Some \<lparr>inbox_id = ''94cxxxf4'', emailAddress = ''hello@test.de''\<rparr>\<rparr>,
      [GetInbox ''94cxxxf4'']) \<and>
   DeleteInbox ''94cxxxf4'' \<in>
     set (snd (snd (MailSlurp_after testProvider
       (fst (snd (haveExistingMailbox testProvider (Some ''94cxxxf4'') testHelper []))) [])))"
  using haveExistingMailbox_needs_an_id
          [where mailboxId = None and P = testProvider and h = testHelper and tr = "[]"
             and i = "''94cxxxf4''"
             and inbox = "\<lparr>inbox_id = ''94cxxxf4'', emailAddress = ''hello@test.de''\<rparr>"
             and ms = "[\<lparr>inbox_id = ''123'', emailAddress = ''hello@test.de''\<rparr>]"
             and P' = testProvider and tr' = "[]"]
  by (auto simp: testHelper_simps testProvider_simps)

section \<open>Deleting the mailboxes after a test\<close>

lemma Promise_all_fulfilled: "Promise_all (map Inr vs) = Inr vs"
  by (induction vs) simp_all

lemma Promise_all_rejected:
  "Inl e \<in> set rs \<Longrightarrow> \<exists>e'. Inl e' \<in> set rs \<and> Promise_all rs = Inl (Rejected e')"
proof (induction rs rule: Promise_all.induct)
  case 1
  then show ?case by simp
next
  case (2 e0 rs)
  then show ?case by auto
next
  case (3 v rs)
  then show ?case by auto
qed

lemma deleteAnswers_nth:
  "i < length ms \<Longrightarrow>
   deleteAnswers P ms tr ! i = mailslurp_deleteInbox P (tr @ deleteCalls (take i ms)) (inbox_id (ms ! i))"
  by (simp add: deleteAnswers_def deleteCalls_def mapRequests_nth)

lemma MailSlurp_after_nothing:
  "mailboxes h = None \<or> mailboxes h = Some [] \<Longrightarrow> MailSlurp_after P h tr = (Inr (), h, tr)"
  by (auto simp: MailSlurp_after_def)

lemma MailSlurp_after_fulfilled:
  assumes "mailboxes h = Some ms" "ms \<noteq> []"
    and "deleteAnswers P ms tr = replicate (length ms) (Inr ())"
  shows "MailSlurp_after P h tr =
           (Inr (), h\<lparr>mailboxes := Some [], currentMailbox := None, currentEmail := None\<rparr>,
            tr @ deleteCalls ms)"
proof -
  have "deleteAnswers P ms tr = map Inr (replicate (length ms) ())"
    by (simp add: assms(3))
  then have "Promise_all (deleteAnswers P ms tr) = Inr (replicate (length ms) ())"
    by (simp only: Promise_all_fulfilled)
  then show ?thesis
    using assms(1,2) mapRequests_log [of "\<lambda>m. DeleteInbox (inbox_id m)"
        "\<lambda>t m. mailslurp_deleteInbox P t (inbox_id m)" ms tr]
    by (simp add: MailSlurp_after_def deleteAnswers_def deleteCalls_def case_prod_unfold)
qed

lemma MailSlurp_after_rejected:
  assumes "mailboxes h = Some ms" and "Inl e \<in> set (deleteAnswers P ms tr)"
  shows "\<exists>e'. Inl e' \<in> set (deleteAnswers P ms tr) \<and>
           MailSlurp_after P h tr = (Inl (Rejected e'), h, tr @ deleteCalls ms)"
proof -
  from Promise_all_rejected [OF assms(2)] obtain e' where
    e': "Inl e' \<in> set (deleteAnswers P ms tr)"
      "Promise_all (deleteAnswers P ms tr) = Inl (Rejected e')"
    by blast
  from assms(2) have "ms \<noteq> []" by (auto simp: deleteAnswers_def)
  with e'(2) assms(1) have "MailSlurp_after P h tr = (Inl (Rejected e'), h, tr @ deleteCalls ms)"
    using mapRequests_log [of "\<lambda>m. DeleteInbox (inbox_id m)"
        "\<lambda>t m. mailslurp_deleteInbox P t (inbox_id m)" ms tr]
    by (simp add: MailSlurp_after_def deleteAnswers_def deleteCalls_def case_prod_unfold)
  with e'(1) show ?thesis by blast
qed

lemma busyHelper_simps:
  "mailboxes busyHelper = Some threeMailboxes"
  "currentEmail busyHelper = Some testEmail"
  by (simp_all add: busyHelper_def)

lemma threeMailboxes_calls:
  "deleteCalls threeMailboxes = [DeleteInbox ''a'', DeleteInbox ''b'', DeleteInbox ''c'']"
  "length threeMailboxes = 3" "threeMailboxes \<noteq> []"
  by (simp_all add: deleteCalls_def threeMailboxes_def)

lemma threeMailboxes_answers:
  "deleteAnswers testProvider threeMailboxes [] = [Inr (), Inr (), Inr ()]"
  "deleteAnswers failingProvider threeMailboxes [] = [Inr (), Inl ''Inbox not found'', Inr ()]"
  by (simp_all add: deleteAnswers_def threeMailboxes_def testProvider_def failingProvider_def)

text \<open>
  C3, as the code has it. With no mailbox recorded \<open>_after\<close> does nothing at all. With
  the mailboxes \<open>ms\<close> recorded it calls \<open>deleteInbox\<close> once for each of them, in
  order, whatever the provider answers to the other calls. When every call succeeds the
  state is cleared: no mailbox recorded, no current mailbox, no current email. When a
  call fails, \<open>_after\<close> fails with the rejection of a failed call and the state is
  left as it was.
\<close>

theorem after_deletes_every_mailbox:
  "(mailboxes h = None \<or> mailboxes h = Some [] \<longrightarrow> MailSlurp_after P h tr = (Inr (), h, tr)) \<and>
   (mailboxes h = Some ms \<longrightarrow>
      snd (snd (MailSlurp_after P h tr)) = tr @ deleteCalls ms \<and>
      length (deleteCalls ms) = length ms \<and>
      (\<forall>i < length ms.
         deleteCalls ms ! i = DeleteInbox (inbox_id (ms ! i)) \<and>
         deleteAnswers P ms tr ! i =
           mailslurp_deleteInbox P (tr @ deleteCalls (take i ms)) (inbox_id (ms ! i))) \<and>
      (ms \<noteq> [] \<and> deleteAnswers P ms tr = replicate (length ms) (Inr ()) \<longrightarrow>
         MailSlurp_after P h tr =
           (Inr (), h\<lparr>mailboxes := Some [], currentMailbox := None, currentEmail := None\<rparr>,
            tr @ deleteCalls ms)) \<and>
      (Inl e \<in> set (deleteAnswers P ms tr) \<longrightarrow>
         (\<exists>e'. Inl e' \<in> set (deleteAnswers P ms tr) \<and>
            MailSlurp_after P h tr = (Inl (Rejected e'), h, tr @ deleteCalls ms))))"
proof -
  have log: "snd (snd (MailSlurp_after P h tr)) = tr @ deleteCalls ms" if "mailboxes h = Some ms"
    by (simp add: MailSlurp_after_log that)
  have calls: "length (deleteCalls ms) = length ms"
    "\<forall>i < length ms. deleteCalls ms ! i = DeleteInbox (inbox_id (ms ! i)) \<and>
         deleteAnswers P ms tr ! i =
           mailslurp_deleteInbox P (tr @ deleteCalls (take i ms)) (inbox_id (ms ! i))"
    by (simp_all add: deleteCalls_def deleteAnswers_nth [unfolded deleteCalls_def])
  from log calls MailSlurp_after_nothing [of h P tr] MailSlurp_after_fulfilled [of h ms P tr]
    MailSlurp_after_rejected [of h ms e P tr]
  show ?thesis by blast
qed

theorem after_deletes_every_mailbox_witness:
  "mailboxes (openEmail testEmail (MailSlurp_before testHelper)) = Some [] \<and>
   MailSlurp_after testProvider (openEmail testEmail (MailSlurp_before testHelper)) [] =
     (Inr (), openEmail testEmail (MailSlurp_before testHelper), []) \<and>
   mailboxes busyHelper = Some threeMailboxes \<and>
   threeMailboxes \<noteq> [] \<and>
   deleteAnswers testProvider threeMailboxes [] = replicate (length threeMailboxes) (Inr ()) \<and>
   MailSlurp_after testProvider busyHelper [] =
     (Inr (), busyHelper\<lparr>mailboxes := Some [], currentMailbox := None, currentEmail := None\<rparr>,
      [DeleteInbox ''a'', DeleteInbox ''b'', DeleteInbox ''c'']) \<and>
   Inl ''Inbox not found'' \<in> set (deleteAnswers failingProvider threeMailboxes []) \<and>
   (\<exists>e'. MailSlurp_after failingProvider busyHelper [] =
      (Inl (Rejected e'), busyHelper, [DeleteInbox ''a'', DeleteInbox ''b'', DeleteInbox ''c'']))"
proof -
  have none: "mailboxes (openEmail testEmail (MailSlurp_before testHelper)) = Some []"
    by (simp add: openEmail_def MailSlurp_before_def)
  have ok: "deleteAnswers testProvider threeMailboxes [] = replicate (length threeMailboxes) (Inr ())"
    by (simp add: threeMailboxes_answers threeMailboxes_calls numeral_3_eq_3)
  have bad: "Inl ''Inbox not found'' \<in> set (deleteAnswers failingProvider threeMailboxes [])"
    by (simp add: threeMailboxes_answers)
  from after_deletes_every_mailbox
         [where h = "openEmail testEmail (MailSlurp_before testHelper)" and P = testProvider
            and tr = "[]" and ms = "[]"]
       after_deletes_every_mailbox
         [where h = busyHelper and P = testProvider and tr = "[]" and ms = threeMailboxes]
       after_deletes_every_mailbox
         [where h = busyHelper and P = failingProvider and tr = "[]" and ms = threeMailboxes
            and e = "''Inbox not found''"]
       none ok bad
  show ?thesis
    by (auto simp: busyHelper_simps threeMailboxes_calls)
qed

text \<open>
  C3, as stated, fails: with three mailboxes recorded and a provider that cannot delete
  the second, all three calls are made, but the three mailboxes and the open email are
  still in the state afterwards. And with no mailbox recorded, an email that the test
  has opened itself is still open afterwards.
\<close>

theorem after_failure_counterexample:
  "mailboxes busyHelper = Some threeMailboxes \<and>
   currentEmail busyHelper = Some testEmail \<and>
   MailSlurp_after failingProvider busyHelper [] =
     (Inl (Rejected ''Inbox not found''), busyHelper,
      [DeleteInbox ''a'', DeleteInbox ''b'', DeleteInbox ''c'']) \<and>
   mailboxes (openEmail testEmail (MailSlurp_before testHelper)) = Some [] \<and>
   currentEmail (openEmail testEmail (MailSlurp_before testHelper)) = Some testEmail \<and>
   MailSlurp_after testProvider (openEmail testEmail (MailSlurp_before testHelper)) [] =
     (Inr (), openEmail testEmail (MailSlurp_before testHelper), [])"
  by (simp add: MailSlurp_after_def busyHelper_def threeMailboxes_def failingProvider_def
        openEmail_def MailSlurp_before_def)

section \<open>Looking for an attachment\<close>

lemma metaDataAnswers_Nil: "metaDataAnswers P emailId [] tr = []"
  by (simp add: metaDataAnswers_def)

lemma metaDataAnswers_Cons:
  "metaDataAnswers P emailId (a # as) tr =
     mailslurp_getAttachmentMetaData P tr a emailId
       # metaDataAnswers P emailId as (tr @ [GetAttachmentMetaData a emailId])"
  by (simp add: metaDataAnswers_def case_prod_unfold Let_def)

lemma metaDataAnswers_nth:
  "i < length as \<Longrightarrow>
   metaDataAnswers P emailId as tr ! i =
     mailslurp_getAttachmentMetaData P (tr @ metaDataCalls emailId (take i as)) (as ! i) emailId"
  by (simp add: metaDataAnswers_def metaDataCalls_def mapRequests_nth)

lemma attachmentLoop_notFound:
  assumes "metaDataAnswers P emailId as tr = map Inr ms"
    and "re nameRegExp = Some matching"
    and "\<forall>m \<in> set ms. \<not> matching (name m)"
  shows "attachmentLoop P re nameRegExp emailId as found tr =
           (Inr (NotFound (found @ map name ms)), tr @ metaDataCalls emailId as)"
  using assms
proof (induction as arbitrary: found tr ms)
  case Nil
  then show ?case by (simp add: metaDataAnswers_Nil metaDataCalls_def)
next
  case (Cons a as)
  from Cons.prems(1) obtain m ms' where ms: "ms = m # ms'"
    and m: "mailslurp_getAttachmentMetaData P tr a emailId = Inr m"
    and rest: "metaDataAnswers P emailId as (tr @ [GetAttachmentMetaData a emailId]) = map Inr ms'"
    by (cases ms) (auto simp: metaDataAnswers_Cons)
  from Cons.prems(3) ms have no: "\<not> matching (name m)" "\<forall>m \<in> set ms'. \<not> matching (name m)"
    by simp_all
  from Cons.IH [OF rest Cons.prems(2) no(2), of "found @ [name m]"] m no(1) Cons.prems(2) ms
  show ?case by (simp add: await_def metaDataCalls_def)
qed

lemma attachmentLoop_found:
  assumes "take (Suc (length ms)) (metaDataAnswers P emailId as tr) = map Inr (ms @ [m])"
    and "length ms < length as"
    and "re nameRegExp = Some matching"
    and "\<forall>m' \<in> set ms. \<not> matching (name m')"
    and "matching (name m)"
  shows "attachmentLoop P re nameRegExp emailId as found tr =
           (Inr Found, tr @ metaDataCalls emailId (take (Suc (length ms)) as))"
  using assms(1,2,4)
proof (induction as arbitrary: found tr ms)
  case Nil
  then show ?case by simp
next
  case (Cons a as)
  show ?case
  proof (cases ms)
    case Nil
    with Cons.prems(1) have "mailslurp_getAttachmentMetaData P tr a emailId = Inr m"
      by (simp add: metaDataAnswers_Cons)
    with Nil assms(3,5) show ?thesis by (simp add: await_def metaDataCalls_def)
  next
    case (Cons m0 ms')
    with Cons.prems(1) have m0: "mailslurp_getAttachmentMetaData P tr a emailId = Inr m0"
      and rest: "take (Suc (length ms'))
                   (metaDataAnswers P emailId as (tr @ [GetAttachmentMetaData a emailId])) =
                 map Inr (ms' @ [m])"
      by (simp_all add: metaDataAnswers_Cons)
    from Cons Cons.prems(2,3) have len: "length ms' < length as"
      and no: "\<not> matching (name m0)" "\<forall>m' \<in> set ms'. \<not> matching (name m')"
      by simp_all
    from Cons.IH [OF rest len no(2), of "found @ [name m0]"] m0 no(1) assms(3) Cons
    show ?thesis by (simp add: await_def metaDataCalls_def)
  qed
qed

lemma sublist_join: "x \<in> set xs \<Longrightarrow> sublist x (join sep xs)"
proof (induction sep xs rule: join.induct)
  case (1 sep)
  then show ?case by simp
next
  case (2 sep y)
  then show ?case by simp
next
  case (3 sep y z zs)
  show ?case
  proof (cases "x = y")
    case True
    then show ?thesis by simp
  next
    case False
    with 3 have "sublist x (join sep (z # zs))" by simp
    then obtain ps ss where "join sep (z # zs) = ps @ x @ ss" by (auto simp: sublist_def)
    then have "join sep (y # z # zs) = (y @ sep @ ps) @ x @ ss" by simp
    then show ?thesis unfolding sublist_def by blast
  qed
qed

lemma sublist_fourth: "sublist x (a @ b @ c @ x @ r)"
proof -
  have "a @ b @ c @ x @ r = (a @ b @ c) @ x @ r" by simp
  then show ?thesis by (simp only: sublist_appendI)
qed

lemma sublist_seventh:
  assumes "sublist x j"
  shows "sublist x (a @ b @ c @ d @ e @ f @ j @ g)"
proof -
  from assms obtain ps ss where "j = ps @ x @ ss" by (auto simp: sublist_def)
  then have "a @ b @ c @ d @ e @ f @ j @ g = (a @ b @ c @ d @ e @ f @ ps) @ x @ (ss @ g)"
    by simp
  then show ?thesis by (simp only: sublist_appendI)
qed

lemma notFoundMessage_subject: "sublist (subject email) (notFoundMessage nameRegExp email found)"
  unfolding notFoundMessage_def by (rule sublist_fourth)

lemma notFoundMessage_name:
  assumes "x \<in> set found"
  shows "sublist x (notFoundMessage nameRegExp email found)"
proof -
  from assms have pos: "0 < length found" by (rule length_pos_if_in_set)
  show ?thesis
    unfolding notFoundMessage_def
    by (simp only: pos if_True sublist_seventh [OF sublist_join [OF assms]])
qed

lemma testEmail_simps:
  "email_id testEmail = ''email-id''" "subject testEmail = ''Hello Test''"
  "attachments testEmail = [''att-1'', ''att-2'']"
  by (simp_all add: testEmail_def)

lemma testAnswers:
  "metaDataAnswers testProvider ''email-id'' [''att-1'', ''att-2''] [] =
     [Inr \<lparr>name = ''README.md''\<rparr>, Inr \<lparr>name = ''LICENSE''\<rparr>]"
  by (simp add: metaDataAnswers_Cons metaDataAnswers_Nil testProvider_simps)

lemma testMatches:
  "sublist ''README'' ''README.md''"
  "\<not> sublist ''CHANGELOG'' ''README.md''"
  "\<not> sublist ''CHANGELOG'' ''LICENSE''"
  by (simp_all add: sublist_code)

lemma testMessage:
  \<open>notFoundMessage ''CHANGELOG'' testEmail [''README.md'', ''LICENSE''] =
     ''Attachment with name "CHANGELOG" not found in e-mail with subject "Hello Test". Found attachments: "README.md,LICENSE"''\<close>
  by (simp add: notFoundMessage_def testEmail_simps)

text \<open>
  C8. \<open>seeEmailAttachment\<close> resolves the attachments of the open email in order, one
  call for each, every call made after the ones before it (last part). When the
  provider answers with metadata whose names do not match for the first attachments
  and with a matching name for the next one, the assertion succeeds and has made the
  calls up to that attachment and no other (first part). When the provider answers
  with metadata for every attachment and no name matches, the assertion has made all
  the calls and fails as a failed expectation on a message that contains the subject
  of the email and every name found (second part).
\<close>

theorem seeEmailAttachment_stops_at_first_match:
  "(currentEmail h = Some email \<and> re nameRegExp = Some matching \<and>
    length ms < length (attachments email) \<and>
    take (Suc (length ms)) (metaDataAnswers P (email_id email) (attachments email) tr)
      = map Inr (ms @ [m]) \<and>
    (\<forall>m' \<in> set ms. \<not> matching (name m')) \<and> matching (name m) \<longrightarrow>
      seeEmailAttachment P re nameRegExp h tr =
        (Inr (), tr @ metaDataCalls (email_id email) (take (Suc (length ms)) (attachments email)))) \<and>
   (currentEmail h = Some email \<and> (attachments email = [] \<or> re nameRegExp = Some matching) \<and>
    metaDataAnswers P (email_id email) (attachments email) tr = map Inr ms \<and>
    (\<forall>m' \<in> set ms. \<not> matching (name m')) \<longrightarrow>
      seeEmailAttachment P re nameRegExp h tr =
        (Inl (JestAssertionError (JString (notFoundMessage nameRegExp email (map name ms)))),
         tr @ metaDataCalls (email_id email) (attachments email)) \<and>
      sublist (subject email) (notFoundMessage nameRegExp email (map name ms)) \<and>
      (\<forall>m' \<in> set ms. sublist (name m') (notFoundMessage nameRegExp email (map name ms)))) \<and>
   (\<forall>i < length (attachments email).
      metaDataCalls (email_id email) (attachments email) ! i
        = GetAttachmentMetaData (attachments email ! i) (email_id email) \<and>
      metaDataAnswers P (email_id email) (attachments email) tr ! i =
        mailslurp_getAttachmentMetaData P
          (tr @ metaDataCalls (email_id email) (take i (attachments email)))
          (attachments email ! i) (email_id email))"
proof -
  have found: "seeEmailAttachment P re nameRegExp h tr =
        (Inr (), tr @ metaDataCalls (email_id email) (take (Suc (length ms)) (attachments email)))"
    if "currentEmail h = Some email" "re nameRegExp = Some matching"
      "length ms < length (attachments email)"
      "take (Suc (length ms)) (metaDataAnswers P (email_id email) (attachments email) tr)
         = map Inr (ms @ [m])"
      "\<forall>m' \<in> set ms. \<not> matching (name m')" "matching (name m)"
    using that(1)
      attachmentLoop_found [where re = re and nameRegExp = nameRegExp and matching = matching
        and m = m and ms = ms and found = "[]", OF that(4,3,2,5,6)]
    by (simp add: seeEmailAttachment_def hasCurrentEmail_def)
  have loop: "attachmentLoop P re nameRegExp (email_id email) (attachments email) [] tr =
        (Inr (NotFound (map name ms)), tr @ metaDataCalls (email_id email) (attachments email))"
    if "attachments email = [] \<or> re nameRegExp = Some matching"
      "metaDataAnswers P (email_id email) (attachments email) tr = map Inr ms"
      "\<forall>m' \<in> set ms. \<not> matching (name m')"
  proof (cases "attachments email = []")
    case True
    with that(2) show ?thesis by (simp add: metaDataAnswers_Nil metaDataCalls_def)
  next
    case False
    with that(1) have "re nameRegExp = Some matching" by simp
    from attachmentLoop_notFound [where re = re and nameRegExp = nameRegExp
        and matching = matching and found = "[]", OF that(2) this that(3)]
    show ?thesis by simp
  qed
  have nonempty: "notFoundMessage nameRegExp email (map name ms) \<noteq> []"
    by (simp add: notFoundMessage_def)
  have notFound: "seeEmailAttachment P re nameRegExp h tr =
        (Inl (JestAssertionError (JString (notFoundMessage nameRegExp email (map name ms)))),
         tr @ metaDataCalls (email_id email) (attachments email))"
    if "currentEmail h = Some email"
      "attachments email = [] \<or> re nameRegExp = Some matching"
      "metaDataAnswers P (email_id email) (attachments email) tr = map Inr ms"
      "\<forall>m' \<in> set ms. \<not> matching (name m')"
    using that(1) loop [OF that(2,3,4)] nonempty
    by (simp add: seeEmailAttachment_def hasCurrentEmail_def expect_toBeFalsy_def)
  have message: "sublist (subject email) (notFoundMessage nameRegExp email (map name ms))"
    "\<forall>m' \<in> set ms. sublist (name m') (notFoundMessage nameRegExp email (map name ms))"
    by (simp_all add: notFoundMessage_subject notFoundMessage_name)
  have answers: "\<forall>i < length (attachments email).
      metaDataCalls (email_id email) (attachments email) ! i
        = GetAttachmentMetaData (attachments email ! i) (email_id email) \<and>
      metaDataAnswers P (email_id email) (attachments email) tr ! i =
        mailslurp_getAttachmentMetaData P
          (tr @ metaDataCalls (email_id email) (take i (attachments email)))
          (attachments email ! i) (email_id email)"
    by (simp add: metaDataAnswers_nth) (simp add: metaDataCalls_def)
  from found notFound message answers show ?thesis by blast
qed

theorem seeEmailAttachment_stops_at_first_match_witness:
  \<open>currentEmail busyHelper = Some testEmail \<and>
   attachments testEmail = [''att-1'', ''att-2''] \<and>
   metaDataAnswers testProvider ''email-id'' [''att-1'', ''att-2''] [] =
     [Inr \<lparr>name = ''README.md''\<rparr>, Inr \<lparr>name = ''LICENSE''\<rparr>] \<and>
   sublist ''README'' ''README.md'' \<and>
   seeEmailAttachment testProvider plainRegExp ''README'' busyHelper [] =
     (Inr (), [GetAttachmentMetaData ''att-1'' ''email-id'']) \<and>
   \<not> sublist ''CHANGELOG'' ''README.md'' \<and>
   \<not> sublist ''CHANGELOG'' ''LICENSE'' \<and>
   seeEmailAttachment testProvider plainRegExp ''CHANGELOG'' busyHelper [] =
     (Inl (JestAssertionError (JString
        ''Attachment with name "CHANGELOG" not found in e-mail with subject "Hello Test". Found attachments: "README.md,LICENSE"'')),
      [GetAttachmentMetaData ''att-1'' ''email-id'', GetAttachmentMetaData ''att-2'' ''email-id''])\<close>
proof -
  have re: "plainRegExp ''README'' = Some (sublist ''README'')"
    "plainRegExp ''CHANGELOG'' = Some (sublist ''CHANGELOG'')"
    by (simp_all add: plainRegExp_def)
  from seeEmailAttachment_stops_at_first_match
         [where h = busyHelper and email = testEmail and re = plainRegExp
            and nameRegExp = "''README''" and matching = "sublist ''README''"
            and ms = "[]" and m = "\<lparr>name = ''README.md''\<rparr>" and P = testProvider and tr = "[]"]
       seeEmailAttachment_stops_at_first_match
         [where h = busyHelper and email = testEmail and re = plainRegExp
            and nameRegExp = "''CHANGELOG''" and matching = "sublist ''CHANGELOG''"
            and ms = "[\<lparr>name = ''README.md''\<rparr>, \<lparr>name = ''LICENSE''\<rparr>]"
            and P = testProvider and tr = "[]"]
  show ?thesis
    by (simp add: busyHelper_simps testEmail_simps testAnswers testMatches testMessage re
          metaDataCalls_def)
qed

end
